theory Spec2Isabelle
  imports Complex_Main
begin

section \<open>MTU probe scoring (wireguard.js, calculateMTUScore)\<close>

text \<open>
  The object returned by \<open>performMTUTest\<close>: whether at least one probe was answered,
  the average latency of the answered probes in milliseconds, and the percentages of
  lost and answered probes. JavaScript numbers are modelled as exact reals.
\<close>

record test_result =
  tr_success :: bool
  tr_latency :: real
  tr_packetLoss :: real
  tr_successRate :: real

text \<open>
  \<open>calculateMTUScore\<close>, statement by statement: the early return, the base score,
  the \<open>if / else if\<close> chain on the latency, the subtraction of the packet loss and
  the final \<open>Math.max(0, Math.min(100, score))\<close>.
\<close>

definition calculateMTUScore :: "test_result \<Rightarrow> real" where
  "calculateMTUScore testResult =
     (if \<not> tr_success testResult then 0
      else
        let score0 = 50;
            score1 =
              (if tr_latency testResult < 50 then score0 + 30
               else if tr_latency testResult < 100 then score0 + 20
               else if tr_latency testResult < 200 then score0 + 10
               else score0);
            score2 = score1 - tr_packetLoss testResult
        in max 0 (min 100 score2))"

text \<open>The formula in the words of the specification, to compare the code with.\<close>

definition spec_latencyBonus :: "real \<Rightarrow> real" where
  "spec_latencyBonus avgLatency =
     (if avgLatency < 50 then 30
      else if avgLatency < 100 then 20
      else if avgLatency < 200 then 10
      else 0)"

definition spec_clamp :: "real \<Rightarrow> real \<Rightarrow> real \<Rightarrow> real" where
  "spec_clamp lo hi x = (if x < lo then lo else if hi < x then hi else x)"

definition spec_score :: "test_result \<Rightarrow> real" where
  "spec_score r =
     (if tr_success r
      then spec_clamp 0 100 (50 + spec_latencyBonus (tr_latency r) - tr_packetLoss r)
      else 0)"

lemma spec_clamp_max_min: "lo \<le> hi \<Longrightarrow> spec_clamp lo hi x = max lo (min hi x)"
  by (simp add: spec_clamp_def max_def min_def)

text \<open>
  Claim C6. For every probe test result the score computed by \<open>calculateMTUScore\<close> is
  the clamp to the range 0..100 of 50 plus the latency bonus (30 under 50 ms, 20 under
  100 ms, 10 under 200 ms, 0 otherwise) minus the packet-loss percentage, and a result
  whose probe did not succeed scores 0.
\<close>

theorem calculateMTUScore_is_spec_score:
  "calculateMTUScore r = spec_score r"
proof (cases "tr_success r")
  case False
  then show ?thesis by (simp add: calculateMTUScore_def spec_score_def)
next
  case True
  have clamp: "spec_clamp 0 100 y = max 0 (min 100 y)" for y :: real
    by (rule spec_clamp_max_min) simp
  from True show ?thesis
    by (simp add: calculateMTUScore_def spec_score_def spec_latencyBonus_def clamp Let_def)
qed

text \<open>
  The scenario of the specification: answered probes with average latency 40 ms and
  90 ms and no loss score 80 and 70; a probe that got no answer scores 0.
\<close>

theorem calculateMTUScore_scenario:
  "calculateMTUScore \<lparr>tr_success = True, tr_latency = 40, tr_packetLoss = 0, tr_successRate = 100\<rparr> = 80
   \<and> calculateMTUScore \<lparr>tr_success = True, tr_latency = 90, tr_packetLoss = 0, tr_successRate = 100\<rparr> = 70
   \<and> calculateMTUScore \<lparr>tr_success = False, tr_latency = 0, tr_packetLoss = 100, tr_successRate = 0\<rparr> = 0"
  using calculateMTUScore_is_spec_score
    [of "\<lparr>tr_success = True, tr_latency = 40, tr_packetLoss = 0, tr_successRate = 100\<rparr>"]
    calculateMTUScore_is_spec_score
    [of "\<lparr>tr_success = True, tr_latency = 90, tr_packetLoss = 0, tr_successRate = 100\<rparr>"]
    calculateMTUScore_is_spec_score
    [of "\<lparr>tr_success = False, tr_latency = 0, tr_packetLoss = 100, tr_successRate = 0\<rparr>"]
  by (simp add: spec_score_def spec_clamp_def spec_latencyBonus_def)

section \<open>JavaScript strings and numbers\<close>

text \<open>
  Strings are lists of 8-bit characters: the configuration format, the addresses and the
  base64 keys are ASCII. \<open>is_ws\<close> is the white space that \<open>trim\<close> removes, within
  that range. \<open>js_split\<close> is \<open>String.prototype.split\<close> with a string separator (an
  empty separator splits into characters), \<open>js_join\<close> is \<open>Array.prototype.join\<close>,
  \<open>startsWith\<close> and \<open>endsWith\<close> are the methods of the same names. Numbers that the
  code formats or parses are integers; \<open>show_nat\<close> and \<open>show_int\<close> are their decimal
  rendering in a template string.
\<close>

definition is_ws :: "char \<Rightarrow> bool" where
  "is_ws c = (c \<in> set [CHR 0x09, CHR 0x0A, CHR 0x0B, CHR 0x0C, CHR 0x0D, CHR 0x20, CHR 0xA0])"

definition js_trim :: "string \<Rightarrow> string" where
  "js_trim s = rev (dropWhile is_ws (rev (dropWhile is_ws s)))"

fun js_split :: "string \<Rightarrow> string \<Rightarrow> string list" where
  "js_split sep [] = (if sep = [] then [] else [[]])"
| "js_split sep (x # xs) =
     (if sep = [] then [x] # js_split sep xs
      else if take (length sep) (x # xs) = sep
        then [] # js_split sep (drop (length sep) (x # xs))
      else (case js_split sep xs of
              [] \<Rightarrow> [[x]]
            | w # ws \<Rightarrow> (x # w) # ws))"

fun js_join :: "string \<Rightarrow> string list \<Rightarrow> string" where
  "js_join sep [] = []"
| "js_join sep [x] = x"
| "js_join sep (x # y # ys) = x @ sep @ js_join sep (y # ys)"

definition startsWith :: "string \<Rightarrow> string \<Rightarrow> bool" where
  "startsWith s p = (take (length p) s = p)"

definition endsWith :: "string \<Rightarrow> string \<Rightarrow> bool" where
  "endsWith s p = (length p \<le> length s \<and> drop (length s - length p) s = p)"

definition is_digit :: "char \<Rightarrow> bool" where
  "is_digit c = (c \<in> set ''0123456789'')"

definition digit_val :: "char \<Rightarrow> nat" where
  "digit_val c = (of_char c :: nat) - 48"

definition digit_char :: "nat \<Rightarrow> char" where
  "digit_char d = ''0123456789'' ! d"

definition digits_val :: "string \<Rightarrow> nat" where
  "digits_val ds = foldl (\<lambda>acc c. acc * 10 + digit_val c) 0 ds"

fun show_nat :: "nat \<Rightarrow> string" where
  "show_nat n =
     (if n < 10 then [digit_char n] else show_nat (n div 10) @ [digit_char (n mod 10)])"

declare show_nat.simps [simp del]

definition show_int :: "int \<Rightarrow> string" where
  "show_int i = (if i < 0 then ''-'' @ show_nat (nat (- i)) else show_nat (nat i))"

datatype jsnum = Num nat | NaN

definition js_Number :: "string \<Rightarrow> jsnum" where
  "js_Number s = (let t = js_trim s in if list_all is_digit t then Num (digits_val t) else NaN)"

lemma js_split_nonempty: "sep \<noteq> [] \<Longrightarrow> js_split sep s \<noteq> []"
  by (induction s) (auto split: list.splits)

lemma js_split_char_notin: "c \<notin> set s \<Longrightarrow> js_split [c] s = [s]"
  by (induction s) auto

lemma js_split_char_append:
  "c \<notin> set a \<Longrightarrow> js_split [c] (a @ c # b) = a # js_split [c] b"
  by (induction a) auto

lemma digit_val_digit_char: "d < 10 \<Longrightarrow> digit_val (digit_char d) = d"
proof -
  assume "d < 10"
  then have "d \<in> {0,1,2,3,4,5,6,7,8,9}" by auto
  then show ?thesis by (auto simp: digit_val_def digit_char_def)
qed

lemma is_digit_digit_char: "d < 10 \<Longrightarrow> is_digit (digit_char d)"
proof -
  assume "d < 10"
  then have "d \<in> {0,1,2,3,4,5,6,7,8,9}" by auto
  then show ?thesis by (auto simp: is_digit_def digit_char_def)
qed

lemma show_nat_digits: "list_all is_digit (show_nat n)"
proof (induction n rule: show_nat.induct)
  case (1 n)
  show ?case
  proof (cases "n < 10")
    case True
    then show ?thesis by (subst show_nat.simps) (simp add: is_digit_digit_char)
  next
    case False
    with 1 show ?thesis by (subst show_nat.simps) (simp add: is_digit_digit_char)
  qed
qed


lemma digits_val_snoc: "digits_val (ds @ [c]) = digits_val ds * 10 + digit_val c"
  by (simp add: digits_val_def)

lemma digits_val_show_nat: "digits_val (show_nat n) = n"
proof (induction n rule: show_nat.induct)
  case (1 n)
  show ?case
  proof (cases "n < 10")
    case True
    then show ?thesis
      by (subst show_nat.simps) (simp add: digits_val_def digit_val_digit_char)
  next
    case False
    with 1 have "digits_val (show_nat (n div 10)) = n div 10" by simp
    with False show ?thesis
      by (subst show_nat.simps) (simp add: digits_val_snoc digit_val_digit_char)
  qed
qed

lemma is_digit_not_ws: "is_digit c \<Longrightarrow> \<not> is_ws c"
  by (auto simp: is_digit_def is_ws_def)

lemma js_trim_id:
  assumes "s \<noteq> []" "\<not> is_ws (hd s)" "\<not> is_ws (last s)"
  shows "js_trim s = s"
proof -
  from assms have a: "dropWhile is_ws s = s" by (cases s) auto
  from assms have "dropWhile is_ws (rev s) = rev s"
    by (cases "rev s") (auto simp: last_rev hd_rev dest: arg_cong [where f = hd])
  with a show ?thesis by (simp add: js_trim_def)
qed

lemma js_trim_digits: "list_all is_digit s \<Longrightarrow> js_trim s = s"
proof (cases "s = []")
  case True
  then show ?thesis by (simp add: js_trim_def)
next
  case False
  assume d: "list_all is_digit s"
  from False d have "is_digit (hd s)" "is_digit (last s)"
    by (auto simp: list_all_iff)
  with False show ?thesis by (intro js_trim_id) (auto dest: is_digit_not_ws)
qed

lemma js_Number_show_nat: "js_Number (show_nat n) = Num n"
  by (simp add: js_Number_def js_trim_digits show_nat_digits digits_val_show_nat)

lemma digits_no_char: "list_all is_digit s \<Longrightarrow> \<not> is_digit c \<Longrightarrow> c \<notin> set s"
  by (auto simp: list_all_iff)

section \<open>Persisted records (models/Server.js, models/Peer.js)\<close>

text \<open>
  Document identifiers (\<open>_id\<close>) are natural numbers and dates are milliseconds since
  the epoch. A field that Mongoose may leave unset is an option. The fields are those of
  the two schemas that the service and the schema hooks read or write; each carries the
  schema's name behind a prefix that tells the two records apart.
\<close>

type_synonym oid = nat
type_synonym date = int

datatype error = Error string

datatype server_status = Active | Inactive | ServerError | Maintenance

datatype peer_status = Connected | Disconnected | Pending | PeerError | Disabled

record server =
  srv_id :: oid
  srv_interfaceName :: string
  srv_address :: string
  srv_listenPort :: int
  srv_privateKey :: "string option"
  srv_publicKey :: string
  srv_ispProfile :: string
  srv_mtu :: "int option"
  srv_dns :: "string list"
  srv_persistentKeepalive :: int
  srv_status :: server_status
  srv_lastStartTime :: "date option"
  srv_lastStopTime :: "date option"
  srv_totalUptime :: real
  srv_peerCount :: int
  srv_activePeers :: int
  srv_enableIPv6 :: bool
  srv_updatedAt :: date
  srv_lastSync :: "date option"

record peer =
  peer_id :: oid
  peer_server :: oid
  peer_publicKey :: string
  peer_privateKey :: "string option"
  peer_presharedKey :: "string option"
  peer_allowedIPs :: "string list"
  peer_persistentKeepalive :: int
  peer_assignedIP :: string
  peer_endpointHost :: "string option"
  peer_dns :: "string list"
  peer_mtu :: "int option"
  peer_status :: peer_status
  peer_lastHandshake :: "date option"
  peer_lastSeen :: "date option"
  peer_firstSeen :: "date option"
  peer_connectionCount :: int
  peer_totalUptime :: real
  peer_enabled :: bool
  peer_usePresharedKey :: bool
  peer_configGenerated :: bool
  peer_configFile :: "string option"
  peer_qrCode :: "string option"
  peer_keyRotationDate :: "date option"
  peer_updatedAt :: date


section \<open>Address allocation (Peer._getNextAvailableIP, generateNextIP)\<close>

text \<open>
  \<open>serverParts[k]\<close> inside the template string: a number prints in decimal, \<open>NaN\<close>
  prints as such, and an index past the end of the array is \<open>undefined\<close>.
  \<open>js_Number\<close> covers the strings that the schema's pattern for \<open>address\<close> admits
  (runs of decimal digits) and the empty string; every other string is mapped to NaN.
\<close>

definition render_part :: "jsnum list \<Rightarrow> nat \<Rightarrow> string" where
  "render_part parts k =
     (if k < length parts
      then (case parts ! k of Num n \<Rightarrow> show_nat n | NaN \<Rightarrow> ''NaN'')
      else ''undefined'')"

definition candidateIP :: "jsnum list \<Rightarrow> nat \<Rightarrow> string" where
  "candidateIP serverParts i =
     render_part serverParts 0 @ ''.'' @ render_part serverParts 1 @ ''.'' @
     render_part serverParts 2 @ ''.'' @ show_nat i"

definition isUsed :: "peer list \<Rightarrow> string \<Rightarrow> bool" where
  "isUsed peers ip = list_ex (\<lambda>peer. peer_assignedIP peer = ip) peers"

text \<open>The loop \<open>for (let i = 2; i <= 254; i++)\<close>, entered at \<open>i\<close>.\<close>

function scanIP :: "jsnum list \<Rightarrow> peer list \<Rightarrow> nat \<Rightarrow> error + string" where
  "scanIP serverParts peers i =
     (if i \<le> 254
      then (if \<not> isUsed peers (candidateIP serverParts i)
            then Inr (candidateIP serverParts i)
            else scanIP serverParts peers (i + 1))
      else Inl (Error ''No available IP addresses in the subnet''))"
  by pat_completeness auto
termination
  by (relation "measure (\<lambda>(serverParts, peers, i). 255 - i)") auto

declare scanIP.simps [simp del]

definition serverParts_of :: "server \<Rightarrow> jsnum list" where
  "serverParts_of server =
     (let serverIP = hd (js_split ''/'' (srv_address server))
      in map js_Number (js_split ''.'' serverIP))"

definition peers_of :: "peer list \<Rightarrow> oid \<Rightarrow> peer list" where
  "peers_of allPeers sid = filter (\<lambda>p. peer_server p = sid) allPeers"

text \<open>
  \<open>Peer._getNextAvailableIP(server)\<close> over the peer collection \<open>allPeers\<close>;
  \<open>generateNextIP\<close> of the service has the same body.
\<close>

definition getNextAvailableIP :: "peer list \<Rightarrow> server \<Rightarrow> error + string" where
  "getNextAvailableIP allPeers server =
     scanIP (serverParts_of server) (peers_of allPeers (srv_id server)) 2"

definition generateNextIP :: "peer list \<Rightarrow> server \<Rightarrow> error + string" where
  "generateNextIP allPeers server =
     scanIP (serverParts_of server) (peers_of allPeers (srv_id server)) 2"

text \<open>
  The allocator in the words of the specification: addresses are 32-bit numbers, the
  subnet of \<open>addr/prefixLen\<close> starts at its network address, its usable addresses are
  the network address plus 1 up to the broadcast address minus 1, and the scan starts at
  the second usable one.
\<close>

definition ipv4 :: "nat \<Rightarrow> nat \<Rightarrow> nat \<Rightarrow> nat \<Rightarrow> nat" where
  "ipv4 a b c d = ((a * 256 + b) * 256 + c) * 256 + d"

definition spec_nextAvailable :: "nat \<Rightarrow> nat \<Rightarrow> nat list \<Rightarrow> nat option" where
  "spec_nextAvailable addr prefixLen usedAddresses =
     (let size = 2 ^ (32 - prefixLen);
          network = addr - addr mod size
      in find (\<lambda>a. a \<notin> set usedAddresses) (map (\<lambda>h. network + h) [2 ..< size - 1]))"

definition dotted :: "nat \<Rightarrow> nat \<Rightarrow> nat \<Rightarrow> nat \<Rightarrow> string" where
  "dotted a b c d = show_nat a @ ''.'' @ show_nat b @ ''.'' @ show_nat c @ ''.'' @ show_nat d"

definition cidr :: "nat \<Rightarrow> nat \<Rightarrow> nat \<Rightarrow> nat \<Rightarrow> nat \<Rightarrow> string" where
  "cidr a b c d prefixLen = dotted a b c d @ ''/'' @ show_nat prefixLen"

lemma scanIP_first_free:
  "i \<le> m \<Longrightarrow> m \<le> 254 \<Longrightarrow> \<not> isUsed peers (candidateIP parts m) \<Longrightarrow>
   (\<And>j. i \<le> j \<Longrightarrow> j < m \<Longrightarrow> isUsed peers (candidateIP parts j)) \<Longrightarrow>
   scanIP parts peers i = Inr (candidateIP parts m)"
proof (induction "m - i" arbitrary: i)
  case 0
  then have "i = m" by simp
  with 0 show ?case by (subst scanIP.simps) simp
next
  case (Suc k)
  then have lt: "i < m" by simp
  with Suc.prems have used: "isUsed peers (candidateIP parts i)" by simp
  have "scanIP parts peers (i + 1) = Inr (candidateIP parts m)"
  proof (rule Suc.hyps(1))
    show "k = m - (i + 1)" using Suc.hyps(2) by simp
    show "i + 1 \<le> m" using lt by simp
    show "m \<le> 254" by fact
    show "\<not> isUsed peers (candidateIP parts m)" by fact
    show "isUsed peers (candidateIP parts j)" if "i + 1 \<le> j" "j < m" for j
      using that Suc.prems(4) [of j] by simp
  qed
  with used lt Suc.prems(2) show ?case by (subst scanIP.simps) simp
qed

lemma scanIP_exhausted:
  "(\<And>j. i \<le> j \<Longrightarrow> j \<le> 254 \<Longrightarrow> isUsed peers (candidateIP parts j)) \<Longrightarrow>
   scanIP parts peers i = Inl (Error ''No available IP addresses in the subnet'')"
proof (induction "255 - i" arbitrary: i)
  case 0
  then show ?case by (subst scanIP.simps) simp
next
  case (Suc k)
  then have le: "i \<le> 254" by simp
  have "scanIP parts peers (i + 1) = Inl (Error ''No available IP addresses in the subnet'')"
  proof (rule Suc.hyps(1))
    show "k = 255 - (i + 1)" using Suc.hyps(2) by simp
    show "isUsed peers (candidateIP parts j)" if "i + 1 \<le> j" "j \<le> 254" for j
      using that Suc.prems [of j] by simp
  qed
  with le Suc.prems [of i] show ?case by (subst scanIP.simps) simp
qed

lemma dot_not_digit: "\<not> is_digit CHR ''.''" and slash_not_digit: "\<not> is_digit CHR ''/''"
  by (simp_all add: is_digit_def)

lemma show_nat_no_dot: "CHR ''.'' \<notin> set (show_nat n)"
  by (rule digits_no_char [OF show_nat_digits dot_not_digit])

lemma show_nat_no_slash: "CHR ''/'' \<notin> set (show_nat n)"
  by (rule digits_no_char [OF show_nat_digits slash_not_digit])

lemma js_split_dotted:
  "js_split ''.'' (dotted a b c d) = [show_nat a, show_nat b, show_nat c, show_nat d]"
  by (simp add: dotted_def js_split_char_append js_split_char_notin show_nat_no_dot)

lemma dotted_no_slash: "CHR ''/'' \<notin> set (dotted a b c d)"
  by (simp add: dotted_def show_nat_no_slash)

lemma serverParts_of_cidr:
  "srv_address server = cidr a b c d p \<Longrightarrow> serverParts_of server = [Num a, Num b, Num c, Num d]"
  by (simp add: serverParts_of_def cidr_def js_split_char_append dotted_no_slash
      js_split_dotted js_Number_show_nat)

lemma candidateIP_dotted: "candidateIP [Num a, Num b, Num c, Num d] i = dotted a b c i"
  by (simp add: candidateIP_def render_part_def dotted_def)

text \<open>A peer document as \<open>new Peer(...)\<close> leaves it when only the listed fields are given.\<close>

definition new_peer :: "oid \<Rightarrow> oid \<Rightarrow> string \<Rightarrow> string \<Rightarrow> peer" where
  "new_peer pid sid publicKey assignedIP =
     \<lparr>peer_id = pid, peer_server = sid, peer_publicKey = publicKey,
      peer_privateKey = Some ''private'', peer_presharedKey = None,
      peer_allowedIPs = [''0.0.0.0/0''], peer_persistentKeepalive = 25,
      peer_assignedIP = assignedIP, peer_endpointHost = None, peer_dns = [], peer_mtu = None,
      peer_status = Pending, peer_lastHandshake = None, peer_lastSeen = None,
      peer_firstSeen = None, peer_connectionCount = 0, peer_totalUptime = 0,
      peer_enabled = True, peer_usePresharedKey = False, peer_configGenerated = False,
      peer_configFile = None, peer_qrCode = None, peer_keyRotationDate = Some 0,
      peer_updatedAt = 0\<rparr>"

text \<open>A server document with the schema's defaults around the given fields.\<close>

definition new_server :: "oid \<Rightarrow> string \<Rightarrow> string \<Rightarrow> server" where
  "new_server sid interfaceName address =
     \<lparr>srv_id = sid, srv_interfaceName = interfaceName, srv_address = address,
      srv_listenPort = 51820, srv_privateKey = Some ''serverprivate'',
      srv_publicKey = ''serverpublic'', srv_ispProfile = ''UNKNOWN'', srv_mtu = Some 1420,
      srv_dns = [''8.8.8.8'', ''8.8.4.4''], srv_persistentKeepalive = 25,
      srv_status = Inactive, srv_lastStartTime = None, srv_lastStopTime = None,
      srv_totalUptime = 0, srv_peerCount = 0, srv_activePeers = 0, srv_enableIPv6 = False,
      srv_updatedAt = 0, srv_lastSync = None\<rparr>"

text \<open>
  Claim C7, as amended. For an interface whose address is \<open>a.b.c.d/p\<close>, allocation
  scans the last octet upward from 2 to 254 under the first three octets of the address:
  it returns \<open>a.b.c.m\<close> for the least \<open>m\<close> in that range that no peer of the interface
  has as its assigned address, and fails with "No available IP addresses in the subnet"
  when all of \<open>a.b.c.2\<close> .. \<open>a.b.c.254\<close> are assigned. The prefix length plays no role.
  \<open>generateNextIP\<close> does the same.
\<close>

theorem getNextAvailableIP_first_free_octet:
  assumes "srv_address server = cidr a b c d p"
  shows "(\<forall>m. 2 \<le> m \<and> m \<le> 254
            \<and> \<not> isUsed (peers_of allPeers (srv_id server)) (dotted a b c m)
            \<and> (\<forall>j. 2 \<le> j \<and> j < m \<longrightarrow> isUsed (peers_of allPeers (srv_id server)) (dotted a b c j))
          \<longrightarrow> getNextAvailableIP allPeers server = Inr (dotted a b c m))
       \<and> ((\<forall>j. 2 \<le> j \<and> j \<le> 254 \<longrightarrow> isUsed (peers_of allPeers (srv_id server)) (dotted a b c j))
          \<longrightarrow> getNextAvailableIP allPeers server
                = Inl (Error ''No available IP addresses in the subnet''))
       \<and> generateNextIP allPeers server = getNextAvailableIP allPeers server"
proof (intro conjI allI impI)
  fix m
  assume h: "2 \<le> m \<and> m \<le> 254
    \<and> \<not> isUsed (peers_of allPeers (srv_id server)) (dotted a b c m)
    \<and> (\<forall>j. 2 \<le> j \<and> j < m \<longrightarrow> isUsed (peers_of allPeers (srv_id server)) (dotted a b c j))"
  have "scanIP [Num a, Num b, Num c, Num d] (peers_of allPeers (srv_id server)) 2
        = Inr (candidateIP [Num a, Num b, Num c, Num d] m)"
    by (rule scanIP_first_free) (use h in \<open>simp_all add: candidateIP_dotted\<close>)
  then show "getNextAvailableIP allPeers server = Inr (dotted a b c m)"
    by (simp add: getNextAvailableIP_def serverParts_of_cidr [OF assms] candidateIP_dotted)
next
  assume h: "\<forall>j. 2 \<le> j \<and> j \<le> 254 \<longrightarrow> isUsed (peers_of allPeers (srv_id server)) (dotted a b c j)"
  have "scanIP [Num a, Num b, Num c, Num d] (peers_of allPeers (srv_id server)) 2
        = Inl (Error ''No available IP addresses in the subnet'')"
    by (rule scanIP_exhausted) (use h in \<open>simp_all add: candidateIP_dotted\<close>)
  then show "getNextAvailableIP allPeers server
             = Inl (Error ''No available IP addresses in the subnet'')"
    by (simp add: getNextAvailableIP_def serverParts_of_cidr [OF assms])
next
  show "generateNextIP allPeers server = getNextAvailableIP allPeers server"
    by (simp add: generateNextIP_def getNextAvailableIP_def)
qed

text \<open>
  The scenario of the specification: interface \<open>wgA\<close> with subnet \<open>10.5.0.0/24\<close> whose
  peers hold \<open>.2\<close> .. \<open>.6\<close> (and a peer of another interface that holds \<open>.7\<close>).
\<close>

definition scenario_peers :: "peer list" where
  "scenario_peers =
     [new_peer 1 1 ''k2'' ''10.5.0.2'', new_peer 2 1 ''k3'' ''10.5.0.3'',
      new_peer 3 1 ''k4'' ''10.5.0.4'', new_peer 4 1 ''k5'' ''10.5.0.5'',
      new_peer 5 1 ''k6'' ''10.5.0.6'', new_peer 6 2 ''k7'' ''10.5.0.7'']"

lemma dotted_10_5_0:
  "dotted 10 5 0 2 = ''10.5.0.2''" "dotted 10 5 0 3 = ''10.5.0.3''"
  "dotted 10 5 0 4 = ''10.5.0.4''" "dotted 10 5 0 5 = ''10.5.0.5''"
  "dotted 10 5 0 6 = ''10.5.0.6''" "dotted 10 5 0 7 = ''10.5.0.7''"
  by (simp_all add: dotted_def show_nat.simps digit_char_def)

theorem getNextAvailableIP_scenario:
  "getNextAvailableIP scenario_peers (new_server 1 ''wg0'' ''10.5.0.0/24'') = Inr ''10.5.0.7''"
proof -
  let ?srv = "new_server 1 ''wg0'' ''10.5.0.0/24''"
  have addr: "srv_address ?srv = cidr 10 5 0 0 24"
    by (simp add: new_server_def cidr_def dotted_def show_nat.simps digit_char_def)
  have free: "\<not> isUsed (peers_of scenario_peers (srv_id ?srv)) (dotted 10 5 0 7)"
    by (simp add: dotted_10_5_0 isUsed_def peers_of_def scenario_peers_def new_peer_def
        new_server_def)
  have used: "isUsed (peers_of scenario_peers (srv_id ?srv)) (dotted 10 5 0 j)"
    if "2 \<le> j" "j < 7" for j
  proof -
    from that have "j = 2 \<or> j = 3 \<or> j = 4 \<or> j = 5 \<or> j = 6" by arith
    then show ?thesis
      by (auto simp: dotted_10_5_0 isUsed_def peers_of_def scenario_peers_def new_peer_def
          new_server_def)
  qed
  from getNextAvailableIP_first_free_octet [OF addr, of scenario_peers] free used
  have "getNextAvailableIP scenario_peers ?srv = Inr (dotted 10 5 0 7)"
    by simp
  then show ?thesis by (simp add: dotted_10_5_0)
qed

text \<open>
  The claim as stated fails for a subnet that is not a /24: for the interface address
  \<open>10.5.0.129/25\<close> with no peers the code returns \<open>10.5.0.2\<close>, which lies below the
  network address \<open>10.5.0.128\<close>, while the second usable address of the subnet is
  \<open>10.5.0.130\<close>.
\<close>

theorem getNextAvailableIP_prefix_counterexample:
  "getNextAvailableIP [] (new_server 1 ''wg0'' ''10.5.0.129/25'') = Inr ''10.5.0.2''
   \<and> spec_nextAvailable (ipv4 10 5 0 129) 25 [] = Some (ipv4 10 5 0 130)
   \<and> ipv4 10 5 0 2 < ipv4 10 5 0 128"
proof (intro conjI)
  show "getNextAvailableIP [] (new_server 1 ''wg0'' ''10.5.0.129/25'') = Inr ''10.5.0.2''"
    by code_simp
  have "[2 ..< (128::nat) - 1] = 2 # [3 ..< 127]"
    by (simp add: upt_conv_Cons)
  then show "spec_nextAvailable (ipv4 10 5 0 129) 25 [] = Some (ipv4 10 5 0 130)"
    by (simp add: spec_nextAvailable_def ipv4_def Let_def)
  show "ipv4 10 5 0 2 < ipv4 10 5 0 128" by (simp add: ipv4_def)
qed

section \<open>The persisted store and Mongoose documents\<close>

text \<open>
  The two collections. A document in memory is a pair of records: the fields as they
  were loaded (or last saved) and the fields as they are now. \<open>isModified(path)\<close> is
  their difference on that path, and \<open>save()\<close> writes the modified paths only, so a
  field that somebody else changed in the store meanwhile is kept.
  Queries leave out \<open>privateKey\<close> and \<open>presharedKey\<close>, which the schemas declare with
  \<open>select: false\<close>.
\<close>

record db =
  db_servers :: "server list"
  db_peers :: "peer list"

datatype cmd_result = Ok string | Failed string

definition truthy :: "int option \<Rightarrow> bool" where
  "truthy n = (case n of None \<Rightarrow> False | Some v \<Rightarrow> v \<noteq> 0)"

definition upd :: "'a \<Rightarrow> 'a \<Rightarrow> 'a \<Rightarrow> 'a" where
  "upd loaded current stored = (if current \<noteq> loaded then current else stored)"

definition server_merge :: "server \<Rightarrow> server \<Rightarrow> server \<Rightarrow> server" where
  "server_merge loaded this stored =
     \<lparr>srv_id = srv_id stored,
      srv_interfaceName = upd (srv_interfaceName loaded) (srv_interfaceName this) (srv_interfaceName stored),
      srv_address = upd (srv_address loaded) (srv_address this) (srv_address stored),
      srv_listenPort = upd (srv_listenPort loaded) (srv_listenPort this) (srv_listenPort stored),
      srv_privateKey = upd (srv_privateKey loaded) (srv_privateKey this) (srv_privateKey stored),
      srv_publicKey = upd (srv_publicKey loaded) (srv_publicKey this) (srv_publicKey stored),
      srv_ispProfile = upd (srv_ispProfile loaded) (srv_ispProfile this) (srv_ispProfile stored),
      srv_mtu = upd (srv_mtu loaded) (srv_mtu this) (srv_mtu stored),
      srv_dns = upd (srv_dns loaded) (srv_dns this) (srv_dns stored),
      srv_persistentKeepalive =
        upd (srv_persistentKeepalive loaded) (srv_persistentKeepalive this) (srv_persistentKeepalive stored),
      srv_status = upd (srv_status loaded) (srv_status this) (srv_status stored),
      srv_lastStartTime = upd (srv_lastStartTime loaded) (srv_lastStartTime this) (srv_lastStartTime stored),
      srv_lastStopTime = upd (srv_lastStopTime loaded) (srv_lastStopTime this) (srv_lastStopTime stored),
      srv_totalUptime = upd (srv_totalUptime loaded) (srv_totalUptime this) (srv_totalUptime stored),
      srv_peerCount = upd (srv_peerCount loaded) (srv_peerCount this) (srv_peerCount stored),
      srv_activePeers = upd (srv_activePeers loaded) (srv_activePeers this) (srv_activePeers stored),
      srv_enableIPv6 = upd (srv_enableIPv6 loaded) (srv_enableIPv6 this) (srv_enableIPv6 stored),
      srv_updatedAt = upd (srv_updatedAt loaded) (srv_updatedAt this) (srv_updatedAt stored),
      srv_lastSync = upd (srv_lastSync loaded) (srv_lastSync this) (srv_lastSync stored)\<rparr>"

definition peer_merge :: "peer \<Rightarrow> peer \<Rightarrow> peer \<Rightarrow> peer" where
  "peer_merge loaded this stored =
     \<lparr>peer_id = peer_id stored,
      peer_server = upd (peer_server loaded) (peer_server this) (peer_server stored),
      peer_publicKey = upd (peer_publicKey loaded) (peer_publicKey this) (peer_publicKey stored),
      peer_privateKey = upd (peer_privateKey loaded) (peer_privateKey this) (peer_privateKey stored),
      peer_presharedKey = upd (peer_presharedKey loaded) (peer_presharedKey this) (peer_presharedKey stored),
      peer_allowedIPs = upd (peer_allowedIPs loaded) (peer_allowedIPs this) (peer_allowedIPs stored),
      peer_persistentKeepalive =
        upd (peer_persistentKeepalive loaded) (peer_persistentKeepalive this) (peer_persistentKeepalive stored),
      peer_assignedIP = upd (peer_assignedIP loaded) (peer_assignedIP this) (peer_assignedIP stored),
      peer_endpointHost = upd (peer_endpointHost loaded) (peer_endpointHost this) (peer_endpointHost stored),
      peer_dns = upd (peer_dns loaded) (peer_dns this) (peer_dns stored),
      peer_mtu = upd (peer_mtu loaded) (peer_mtu this) (peer_mtu stored),
      peer_status = upd (peer_status loaded) (peer_status this) (peer_status stored),
      peer_lastHandshake = upd (peer_lastHandshake loaded) (peer_lastHandshake this) (peer_lastHandshake stored),
      peer_lastSeen = upd (peer_lastSeen loaded) (peer_lastSeen this) (peer_lastSeen stored),
      peer_firstSeen = upd (peer_firstSeen loaded) (peer_firstSeen this) (peer_firstSeen stored),
      peer_connectionCount =
        upd (peer_connectionCount loaded) (peer_connectionCount this) (peer_connectionCount stored),
      peer_totalUptime = upd (peer_totalUptime loaded) (peer_totalUptime this) (peer_totalUptime stored),
      peer_enabled = upd (peer_enabled loaded) (peer_enabled this) (peer_enabled stored),
      peer_usePresharedKey =
        upd (peer_usePresharedKey loaded) (peer_usePresharedKey this) (peer_usePresharedKey stored),
      peer_configGenerated =
        upd (peer_configGenerated loaded) (peer_configGenerated this) (peer_configGenerated stored),
      peer_configFile = upd (peer_configFile loaded) (peer_configFile this) (peer_configFile stored),
      peer_qrCode = upd (peer_qrCode loaded) (peer_qrCode this) (peer_qrCode stored),
      peer_keyRotationDate =
        upd (peer_keyRotationDate loaded) (peer_keyRotationDate this) (peer_keyRotationDate stored),
      peer_updatedAt = upd (peer_updatedAt loaded) (peer_updatedAt this) (peer_updatedAt stored)\<rparr>"

definition select_server :: "server \<Rightarrow> server" where
  "select_server s = s\<lparr>srv_privateKey := None\<rparr>"

definition select_peer :: "peer \<Rightarrow> peer" where
  "select_peer p = p\<lparr>peer_privateKey := None, peer_presharedKey := None\<rparr>"

definition findOne_server :: "db \<Rightarrow> string \<Rightarrow> server option" where
  "findOne_server d interfaceName =
     map_option select_server (find (\<lambda>s. srv_interfaceName s = interfaceName) (db_servers d))"

definition findById_server :: "db \<Rightarrow> oid \<Rightarrow> server option" where
  "findById_server d sid = map_option select_server (find (\<lambda>s. srv_id s = sid) (db_servers d))"

definition find_peers :: "db \<Rightarrow> oid \<Rightarrow> peer list" where
  "find_peers d sid = map select_peer (peers_of (db_peers d) sid)"

definition findById_peer :: "db \<Rightarrow> oid \<Rightarrow> peer option" where
  "findById_peer d pid = map_option select_peer (find (\<lambda>p. peer_id p = pid) (db_peers d))"

definition update_server :: "db \<Rightarrow> oid \<Rightarrow> (server \<Rightarrow> server) \<Rightarrow> db" where
  "update_server d sid f =
     d\<lparr>db_servers := map (\<lambda>s. if srv_id s = sid then f s else s) (db_servers d)\<rparr>"

definition updateMany_peers :: "db \<Rightarrow> (peer \<Rightarrow> bool) \<Rightarrow> (peer \<Rightarrow> peer) \<Rightarrow> db" where
  "updateMany_peers d filt f = d\<lparr>db_peers := map (\<lambda>p. if filt p then f p else p) (db_peers d)\<rparr>"

definition countDocuments :: "db \<Rightarrow> (peer \<Rightarrow> bool) \<Rightarrow> int" where
  "countDocuments d filt = int (length (filter filt (db_peers d)))"

subsection \<open>Schema hooks and \<open>save()\<close>\<close>

text \<open>The two \<open>pre("save")\<close> hooks of the server schema, in order.\<close>

definition server_pre_save :: "date \<Rightarrow> server \<Rightarrow> server \<Rightarrow> server" where
  "server_pre_save now loaded this0 =
     (let this1 = this0\<lparr>srv_updatedAt := now\<rparr>;
          this2 =
            (if srv_address this1 \<noteq> srv_address loaded
                \<or> srv_listenPort this1 \<noteq> srv_listenPort loaded
                \<or> srv_privateKey this1 \<noteq> srv_privateKey loaded
             then this1\<lparr>srv_lastSync := Some now\<rparr> else this1)
      in if srv_dns this2 = [] then this2\<lparr>srv_dns := [''8.8.8.8'', ''8.8.4.4'']\<rparr> else this2)"

definition server_save :: "db \<Rightarrow> date \<Rightarrow> server \<Rightarrow> server \<Rightarrow> db \<times> server" where
  "server_save d now loaded this0 =
     (let this1 = server_pre_save now loaded this0
      in (update_server d (srv_id this1) (server_merge loaded this1), this1))"

text \<open>
  The patterns of the peer schema: \<open>/^(\d{1,3}\.){3}\d{1,3}$/\<close> for \<open>assignedIP\<close> and
  \<open>/^(\d{1,3}\.){3}\d{1,3}\/\d{1,2}$/\<close> for the entries of \<open>allowedIPs\<close>.
\<close>

definition matches_ip :: "string \<Rightarrow> bool" where
  "matches_ip s =
     (let parts = js_split ''.'' s
      in length parts = 4 \<and> list_all (\<lambda>p. p \<noteq> [] \<and> length p \<le> 3 \<and> list_all is_digit p) parts)"

definition matches_cidr :: "string \<Rightarrow> bool" where
  "matches_cidr s =
     (case js_split ''/'' s of
        [a, p] \<Rightarrow> matches_ip a \<and> p \<noteq> [] \<and> length p \<le> 2 \<and> list_all is_digit p
      | _ \<Rightarrow> False)"

text \<open>
  Validation before a save: required paths always, other paths when new or modified.
\<close>

definition peer_validate :: "bool \<Rightarrow> peer \<Rightarrow> peer \<Rightarrow> bool" where
  "peer_validate isNew loaded this =
     (peer_publicKey this \<noteq> []
      \<and> matches_ip (peer_assignedIP this)
      \<and> (isNew \<or> peer_allowedIPs this \<noteq> peer_allowedIPs loaded
            \<longrightarrow> list_all matches_cidr (peer_allowedIPs this))
      \<and> (isNew \<or> peer_persistentKeepalive this \<noteq> peer_persistentKeepalive loaded
            \<longrightarrow> 0 \<le> peer_persistentKeepalive this \<and> peer_persistentKeepalive this \<le> 300))"

text \<open>
  \<open>PeerSchema.pre("save")\<close>, one function for each of its statements after the first;
  \<open>statusModified\<close> is \<open>this.isModified("status")\<close>.
\<close>

definition hook_firstSeen :: "date \<Rightarrow> bool \<Rightarrow> peer \<Rightarrow> peer" where
  "hook_firstSeen now statusModified this =
     (if statusModified \<and> peer_status this = Connected \<and> peer_firstSeen this = None
      then this\<lparr>peer_firstSeen := Some now\<rparr> else this)"

definition hook_connected :: "date \<Rightarrow> bool \<Rightarrow> peer \<Rightarrow> peer" where
  "hook_connected now statusModified this =
     (if statusModified \<and> peer_status this = Connected
      then this\<lparr>peer_lastSeen := Some now, peer_connectionCount := peer_connectionCount this + 1\<rparr>
      else this)"

definition hook_disconnected :: "date \<Rightarrow> bool \<Rightarrow> peer \<Rightarrow> peer" where
  "hook_disconnected now statusModified this =
     (if statusModified \<and> peer_status this = Disconnected
      then (case peer_lastHandshake this of
              None \<Rightarrow> this
            | Some h \<Rightarrow>
                this\<lparr>peer_totalUptime := peer_totalUptime this + real_of_int (now - h) / 1000\<rparr>)
      else this)"

definition hook_mtu :: "db \<Rightarrow> peer \<Rightarrow> peer" where
  "hook_mtu d this =
     (if \<not> truthy (peer_mtu this)
      then (case findById_server d (peer_server this) of
              None \<Rightarrow> this
            | Some server \<Rightarrow> this\<lparr>peer_mtu := srv_mtu server\<rparr>)
      else this)"

definition hook_keyRotation :: "date \<Rightarrow> peer \<Rightarrow> peer" where
  "hook_keyRotation now this =
     (if peer_keyRotationDate this = None then this\<lparr>peer_keyRotationDate := Some now\<rparr> else this)"

definition peer_pre_save :: "db \<Rightarrow> date \<Rightarrow> bool \<Rightarrow> peer \<Rightarrow> peer" where
  "peer_pre_save d now statusModified this =
     hook_keyRotation now
       (hook_mtu d
          (hook_disconnected now statusModified
             (hook_connected now statusModified
                (hook_firstSeen now statusModified (this\<lparr>peer_updatedAt := now\<rparr>)))))"

text \<open>
  \<open>PeerSchema.post("save")\<close>: both counters of the owning server are recomputed from
  the peer collection.
\<close>

definition peer_post_save :: "db \<Rightarrow> date \<Rightarrow> peer \<Rightarrow> db" where
  "peer_post_save d now doc =
     (let peerCount = countDocuments d (\<lambda>p. peer_server p = peer_server doc \<and> peer_enabled p);
          activePeers =
            countDocuments d
              (\<lambda>p. peer_server p = peer_server doc \<and> peer_status p = Connected \<and> peer_enabled p)
      in update_server d (peer_server doc)
           (\<lambda>s. s\<lparr>srv_peerCount := peerCount, srv_activePeers := activePeers, srv_updatedAt := now\<rparr>))"

text \<open>
  \<open>peer.save()\<close>: validation, the pre hook, the write (an insert for a new document,
  the modified paths otherwise) and the post hook. A new document whose \<open>_id\<close> or
  \<open>publicKey\<close> (unique index) is already stored is refused.
\<close>

definition peer_save ::
  "db \<Rightarrow> date \<Rightarrow> bool \<Rightarrow> bool \<Rightarrow> peer \<Rightarrow> peer \<Rightarrow> db \<times> (error + peer)" where
  "peer_save d now isNew statusModified loaded this0 =
     (if \<not> peer_validate isNew loaded this0 then (d, Inl (Error ''Peer validation failed''))
      else
        let this1 = peer_pre_save d now statusModified this0
        in if isNew
           then (if list_ex (\<lambda>p. peer_id p = peer_id this1 \<or> peer_publicKey p = peer_publicKey this1)
                      (db_peers d)
                 then (d, Inl (Error ''E11000 duplicate key error''))
                 else (peer_post_save (d\<lparr>db_peers := db_peers d @ [this1]\<rparr>) now this1, Inr this1))
           else (peer_post_save
                   (d\<lparr>db_peers :=
                        map (\<lambda>p. if peer_id p = peer_id this1 then peer_merge loaded this1 p else p)
                          (db_peers d)\<rparr>)
                   now this1,
                 Inr this1))"

section \<open>Live peer status (wireguard.js, updatePeersStatus)\<close>

fun js_includes :: "string \<Rightarrow> string \<Rightarrow> bool" where
  "js_includes [] p = (p = [])"
| "js_includes (x # xs) p = (startsWith (x # xs) p \<or> js_includes xs p)"

text \<open>
  The loop over the lines of \<open>wg show\<close>. \<open>currentPeer\<close> is the public key of the peer
  block being read; the \<open>transfer:\<close> branch only annotates \<open>currentPeer\<close> and adds
  nothing to the set. A line that includes \<open>peer:\<close> splits into at least two parts.
\<close>

definition add_current :: "string option \<Rightarrow> string list \<Rightarrow> string list" where
  "add_current currentPeer connectedPeers =
     (case currentPeer of
        None \<Rightarrow> connectedPeers
      | Some publicKey \<Rightarrow>
          if publicKey \<noteq> [] then connectedPeers @ [js_trim publicKey] else connectedPeers)"

fun wg_show_lines :: "string list \<Rightarrow> string option \<Rightarrow> string list \<Rightarrow> string list" where
  "wg_show_lines [] currentPeer connectedPeers = add_current currentPeer connectedPeers"
| "wg_show_lines (line # lines) currentPeer connectedPeers =
     (if js_includes line ''peer:''
      then wg_show_lines lines
             (Some (js_trim (case js_split '':'' line of a # b # rest \<Rightarrow> b | _ \<Rightarrow> [])))
             (add_current currentPeer connectedPeers)
      else wg_show_lines lines currentPeer connectedPeers)"

definition parse_wg_show :: "string \<Rightarrow> string list" where
  "parse_wg_show wgOutput = wg_show_lines (js_split [CHR 0x0A] wgOutput) None []"

text \<open>The body of \<open>for (const peer of peers)\<close> up to the save.\<close>

definition status_step :: "date \<Rightarrow> string list \<Rightarrow> peer \<Rightarrow> peer" where
  "status_step now connectedPeers peer =
     (let isConnected = (peer_publicKey peer \<in> set connectedPeers)
      in if isConnected \<and> peer_status peer \<noteq> Connected
         then peer\<lparr>peer_status := Connected,
                   peer_lastHandshake := Some now,
                   peer_lastSeen := Some now,
                   peer_firstSeen :=
                     (if peer_firstSeen peer = None then Some now else peer_firstSeen peer),
                   peer_connectionCount := peer_connectionCount peer + 1\<rparr>
         else if \<not> isConnected \<and> peer_status peer = Connected
         then peer\<lparr>peer_status := Disconnected\<rparr>
         else peer)"

fun save_statuses :: "db \<Rightarrow> date \<Rightarrow> string list \<Rightarrow> peer list \<Rightarrow> db \<times> (error + unit)" where
  "save_statuses d now connectedPeers [] = (d, Inr ())"
| "save_statuses d now connectedPeers (peer # rest) =
     (let this = status_step now connectedPeers peer
      in case peer_save d now False (peer_status this \<noteq> peer_status peer) peer this of
           (d1, Inl e) \<Rightarrow> (d1, Inl e)
         | (d1, Inr saved) \<Rightarrow> save_statuses d1 now connectedPeers rest)"

definition updatePeersStatus :: "db \<Rightarrow> date \<Rightarrow> cmd_result \<Rightarrow> string \<Rightarrow> db \<times> (error + unit)" where
  "updatePeersStatus d now wgShow interfaceName =
     (case findOne_server d interfaceName of
        None \<Rightarrow> (d, Inl (Error ''Server not found''))
      | Some server \<Rightarrow>
          (case wgShow of
             Failed msg \<Rightarrow>
               (updateMany_peers d
                  (\<lambda>p. peer_server p = srv_id server \<and> peer_status p = Connected)
                  (\<lambda>p. p\<lparr>peer_status := Disconnected, peer_updatedAt := now\<rparr>),
                Inr ())
           | Ok wgOutput \<Rightarrow>
               (case save_statuses d now (parse_wg_show wgOutput) (find_peers d (srv_id server)) of
                  (d1, Inl e) \<Rightarrow> (d1, Inl e)
                | (d1, Inr u) \<Rightarrow>
                    let activePeers =
                          countDocuments d1
                            (\<lambda>p. peer_server p = srv_id server \<and> peer_status p = Connected
                                  \<and> peer_enabled p)
                    in (fst (server_save d1 now server (server\<lparr>srv_activePeers := activePeers\<rparr>)),
                        Inr ()))))"

definition example_db :: db where
  "example_db =
     \<lparr>db_servers = [new_server 1 ''wg0'' ''10.5.0.1/24''],
      db_peers = [new_peer 1 1 ''k2'' ''10.5.0.2'', new_peer 2 1 ''k3'' ''10.5.0.3'']\<rparr>"

lemma status_step_connect:
  assumes "peer_publicKey p \<in> set connectedPeers" "peer_status p \<noteq> Connected"
  shows "status_step now connectedPeers p =
           p\<lparr>peer_status := Connected, peer_lastHandshake := Some now, peer_lastSeen := Some now,
              peer_firstSeen := (if peer_firstSeen p = None then Some now else peer_firstSeen p),
              peer_connectionCount := peer_connectionCount p + 1\<rparr>"
  using assms by (simp add: status_step_def)


lemma hook_firstSeen_fields [simp]:
  "peer_status (hook_firstSeen now m this) = peer_status this"
  "peer_connectionCount (hook_firstSeen now m this) = peer_connectionCount this"
  "peer_lastHandshake (hook_firstSeen now m this) = peer_lastHandshake this"
  "peer_lastSeen (hook_firstSeen now m this) = peer_lastSeen this"
  "peer_firstSeen (hook_firstSeen now m this) =
     (if m \<and> peer_status this = Connected \<and> peer_firstSeen this = None then Some now
      else peer_firstSeen this)"
  by (simp_all add: hook_firstSeen_def)

lemma hook_connected_fields [simp]:
  "peer_status (hook_connected now m this) = peer_status this"
  "peer_connectionCount (hook_connected now m this) =
     (if m \<and> peer_status this = Connected then peer_connectionCount this + 1
      else peer_connectionCount this)"
  "peer_lastHandshake (hook_connected now m this) = peer_lastHandshake this"
  "peer_lastSeen (hook_connected now m this) =
     (if m \<and> peer_status this = Connected then Some now else peer_lastSeen this)"
  "peer_firstSeen (hook_connected now m this) = peer_firstSeen this"
  by (simp_all add: hook_connected_def)

lemma hook_disconnected_fields [simp]:
  "peer_status (hook_disconnected now m this) = peer_status this"
  "peer_connectionCount (hook_disconnected now m this) = peer_connectionCount this"
  "peer_lastHandshake (hook_disconnected now m this) = peer_lastHandshake this"
  "peer_lastSeen (hook_disconnected now m this) = peer_lastSeen this"
  "peer_firstSeen (hook_disconnected now m this) = peer_firstSeen this"
  by (simp_all add: hook_disconnected_def split: option.splits)

lemma hook_mtu_fields [simp]:
  "peer_status (hook_mtu d this) = peer_status this"
  "peer_connectionCount (hook_mtu d this) = peer_connectionCount this"
  "peer_lastHandshake (hook_mtu d this) = peer_lastHandshake this"
  "peer_lastSeen (hook_mtu d this) = peer_lastSeen this"
  "peer_firstSeen (hook_mtu d this) = peer_firstSeen this"
  by (simp_all add: hook_mtu_def split: option.splits)

lemma hook_keyRotation_fields [simp]:
  "peer_status (hook_keyRotation now this) = peer_status this"
  "peer_connectionCount (hook_keyRotation now this) = peer_connectionCount this"
  "peer_lastHandshake (hook_keyRotation now this) = peer_lastHandshake this"
  "peer_lastSeen (hook_keyRotation now this) = peer_lastSeen this"
  "peer_firstSeen (hook_keyRotation now this) = peer_firstSeen this"
  by (simp_all add: hook_keyRotation_def)

lemma connect_edge_counts_twice:
  assumes "peer_publicKey p \<in> set connectedPeers" "peer_status p \<noteq> Connected"
  shows "peer_connectionCount
           (peer_pre_save d now
              (peer_status (status_step now connectedPeers p) \<noteq> peer_status p)
              (status_step now connectedPeers p))
         = peer_connectionCount p + 2"
  using assms by (simp add: status_step_connect peer_pre_save_def)


lemma connect_edge_timestamps:
  assumes "peer_publicKey p \<in> set connectedPeers" "peer_status p \<noteq> Connected"
  shows "peer_lastHandshake
           (peer_pre_save d now
              (peer_status (status_step now connectedPeers p) \<noteq> peer_status p)
              (status_step now connectedPeers p)) = Some now
       \<and> peer_lastSeen
           (peer_pre_save d now
              (peer_status (status_step now connectedPeers p) \<noteq> peer_status p)
              (status_step now connectedPeers p)) = Some now
       \<and> peer_firstSeen
           (peer_pre_save d now
              (peer_status (status_step now connectedPeers p) \<noteq> peer_status p)
              (status_step now connectedPeers p))
         = (if peer_firstSeen p = None then Some now else peer_firstSeen p)"
  using assms by (simp add: status_step_connect peer_pre_save_def)

lemma updatePeersStatus_example:
  "db_peers (fst (updatePeersStatus example_db 5000 (Ok ''peer: k2'') ''wg0'')) =
     [(new_peer 1 1 ''k2'' ''10.5.0.2'')
        \<lparr>peer_status := Connected, peer_lastHandshake := Some 5000, peer_lastSeen := Some 5000,
         peer_firstSeen := Some 5000, peer_connectionCount := 2, peer_mtu := Some 1420,
         peer_updatedAt := 5000\<rparr>,
      (new_peer 2 1 ''k3'' ''10.5.0.3'')\<lparr>peer_mtu := Some 1420, peer_updatedAt := 5000\<rparr>]"
  by code_simp

text \<open>
  Claim C1, evaluated on the code. Peer \<open>k2\<close> is pending with connection count 0 and
  appears in the output of \<open>wg show\<close>; peer \<open>k3\<close> does not. After \<open>updatePeersStatus\<close>
  peer \<open>k2\<close> is connected, its last-handshake, last-seen and first-seen are set, and
  its connection count is 2: the single edge was counted twice.
\<close>

theorem updatePeersStatus_counts_edge_twice:
  "map peer_status (db_peers (fst (updatePeersStatus example_db 5000 (Ok ''peer: k2'') ''wg0'')))
     = [Connected, Pending]
   \<and> map peer_connectionCount
        (db_peers (fst (updatePeersStatus example_db 5000 (Ok ''peer: k2'') ''wg0''))) = [2, 0]
   \<and> map peer_lastHandshake
        (db_peers (fst (updatePeersStatus example_db 5000 (Ok ''peer: k2'') ''wg0'')))
      = [Some 5000, None]
   \<and> map peer_lastSeen
        (db_peers (fst (updatePeersStatus example_db 5000 (Ok ''peer: k2'') ''wg0'')))
      = [Some 5000, None]
   \<and> map peer_firstSeen
        (db_peers (fst (updatePeersStatus example_db 5000 (Ok ''peer: k2'') ''wg0'')))
      = [Some 5000, None]"
  by (simp add: updatePeersStatus_example new_peer_def)

section \<open>Interface lifecycle (Server.updateStatus, stopInterface)\<close>

text \<open>
  The plain object that \<open>toObject()\<close> returns: the fields of the document and its
  \<open>_id\<close> key, which \<open>toPublicJSON\<close> deletes together with \<open>privateKey\<close>.
\<close>

record server_json =
  json_id :: "oid option"
  json_server :: server

definition toObject_server :: "server \<Rightarrow> server_json" where
  "toObject_server this = \<lparr>json_id = Some (srv_id this), json_server = this\<rparr>"

definition toPublicJSON :: "server \<Rightarrow> server_json" where
  "toPublicJSON this =
     (let obj = toObject_server this
      in obj\<lparr>json_server := (json_server obj)\<lparr>srv_privateKey := None\<rparr>, json_id := None\<rparr>)"

definition updateStatus ::
  "db \<Rightarrow> date \<Rightarrow> server \<Rightarrow> server \<Rightarrow> server_status \<Rightarrow> db \<times> server" where
  "updateStatus d now loaded this newStatus =
     (let this1 =
            (if srv_status this = Active \<and> newStatus = Inactive
             then (case srv_lastStartTime this of
                     None \<Rightarrow> this
                   | Some started \<Rightarrow>
                       this\<lparr>srv_totalUptime :=
                              srv_totalUptime this + real_of_int (now - started) / 1000\<rparr>)
                  \<lparr>srv_lastStopTime := Some now\<rparr>
             else if srv_status this = Inactive \<and> newStatus = Active
             then this\<lparr>srv_lastStartTime := Some now\<rparr>
             else this)
      in server_save d now loaded (this1\<lparr>srv_status := newStatus\<rparr>))"

text \<open>
  \<open>stopInterface\<close>; \<open>wgQuickDown\<close> is the outcome of \<open>wg-quick down\<close>. The store is
  returned in every case, since the status written before a throw stays written.
\<close>

definition stopInterface ::
  "db \<Rightarrow> date \<Rightarrow> cmd_result \<Rightarrow> string \<Rightarrow> db \<times> (error + server_json)" where
  "stopInterface d now wgQuickDown interfaceName =
     (case findOne_server d interfaceName of
        None \<Rightarrow> (d, Inl (Error (''Server '' @ interfaceName @ '' not found in database'')))
      | Some server \<Rightarrow>
          (case wgQuickDown of
             Failed msg \<Rightarrow>
               (fst (updateStatus d now server server ServerError),
                Inl (Error (''Failed to stop interface: '' @ msg)))
           | Ok out \<Rightarrow>
               (case updateStatus d now server server Inactive of
                  (d1, server1) \<Rightarrow>
                    (updateMany_peers d1
                       (\<lambda>p. peer_server p = srv_id server \<and> peer_status p = Connected)
                       (\<lambda>p. p\<lparr>peer_status := Disconnected, peer_lastSeen := Some now,
                               peer_updatedAt := now\<rparr>),
                     Inr (toPublicJSON server1)))))"

text \<open>
  An active interface, started at time 1000, with two connected peers and the counters
  that match them.
\<close>

definition active_db :: db where
  "active_db =
     \<lparr>db_servers =
        [(new_server 1 ''wg0'' ''10.5.0.1/24'')
           \<lparr>srv_status := Active, srv_lastStartTime := Some 1000, srv_peerCount := 2,
            srv_activePeers := 2\<rparr>],
      db_peers =
        [(new_peer 1 1 ''k2'' ''10.5.0.2'')\<lparr>peer_status := Connected, peer_lastHandshake := Some 2000\<rparr>,
         (new_peer 2 1 ''k3'' ''10.5.0.3'')\<lparr>peer_status := Connected, peer_lastHandshake := Some 3000\<rparr>]\<rparr>"

lemma server_merge_activePeers:
  "srv_activePeers this = srv_activePeers loaded \<Longrightarrow>
   srv_activePeers (server_merge loaded this stored) = srv_activePeers stored"
  by (simp add: server_merge_def upd_def)

lemma server_pre_save_activePeers [simp]:
  "srv_activePeers (server_pre_save now loaded this) = srv_activePeers this"
  by (simp add: server_pre_save_def Let_def)

lemma server_pre_save_id [simp]: "srv_id (server_pre_save now loaded this) = srv_id this"
  by (simp add: server_pre_save_def Let_def)

lemma updateStatus_activePeers:
  "map srv_activePeers (db_servers (fst (updateStatus d now server server newStatus)))
     = map srv_activePeers (db_servers d)"
  by (simp add: updateStatus_def server_save_def update_server_def Let_def
      server_merge_activePeers split: option.splits)

text \<open>
  No branch of \<open>stopInterface\<close> writes \<open>activePeers\<close>: the counter of every interface
  is what it was before the call.
\<close>

lemma stopInterface_keeps_activePeers:
  "map srv_activePeers (db_servers (fst (stopInterface d now wgQuickDown interfaceName)))
     = map srv_activePeers (db_servers d)"
proof (cases "findOne_server d interfaceName")
  case None
  then show ?thesis by (simp add: stopInterface_def)
next
  case (Some server)
  show ?thesis
  proof (cases wgQuickDown)
    case (Failed msg)
    with Some show ?thesis by (simp add: stopInterface_def updateStatus_activePeers)
  next
    case (Ok out)
    have "db_servers (fst (stopInterface d now wgQuickDown interfaceName))
            = db_servers (fst (updateStatus d now server server Inactive))"
      using Some Ok by (simp add: stopInterface_def updateMany_peers_def split: prod.splits)
    then show ?thesis by (simp add: updateStatus_activePeers)
  qed
qed

lemma stopInterface_disconnects:
  assumes "findOne_server d interfaceName = Some server"
  shows "list_all (\<lambda>p. peer_server p = srv_id server \<longrightarrow> peer_status p \<noteq> Connected)
           (db_peers (fst (stopInterface d now (Ok out) interfaceName)))"
  using assms
  by (auto simp: stopInterface_def updateMany_peers_def updateStatus_def server_save_def
      update_server_def list_all_iff Let_def split: prod.splits)

lemma stopInterface_example:
  "fst (stopInterface active_db 61000 (Ok []) ''wg0'') =
     \<lparr>db_servers =
        [(new_server 1 ''wg0'' ''10.5.0.1/24'')
           \<lparr>srv_status := Inactive, srv_lastStartTime := Some 1000,
            srv_lastStopTime := Some 61000, srv_totalUptime := 60, srv_peerCount := 2,
            srv_activePeers := 2, srv_updatedAt := 61000\<rparr>],
      db_peers =
        [(new_peer 1 1 ''k2'' ''10.5.0.2'')
           \<lparr>peer_status := Disconnected, peer_lastHandshake := Some 2000,
            peer_lastSeen := Some 61000, peer_updatedAt := 61000\<rparr>,
         (new_peer 2 1 ''k3'' ''10.5.0.3'')
           \<lparr>peer_status := Disconnected, peer_lastHandshake := Some 3000,
            peer_lastSeen := Some 61000, peer_updatedAt := 61000\<rparr>]\<rparr>"
  by code_simp

text \<open>
  Claim C2, evaluated on the code. Stopping the active interface at time 61000
  disconnects both peers and adds the 60 seconds since the start to \<open>totalUptime\<close>, but
  the interface's \<open>activePeers\<close> counter is still 2.
\<close>

theorem stopInterface_leaves_activePeers_stale:
  "map peer_status (db_peers (fst (stopInterface active_db 61000 (Ok []) ''wg0'')))
     = [Disconnected, Disconnected]
   \<and> map srv_totalUptime (db_servers (fst (stopInterface active_db 61000 (Ok []) ''wg0''))) = [60]
   \<and> map srv_status (db_servers (fst (stopInterface active_db 61000 (Ok []) ''wg0''))) = [Inactive]
   \<and> map srv_activePeers (db_servers (fst (stopInterface active_db 61000 (Ok []) ''wg0''))) = [2]"
  by (simp add: stopInterface_example new_peer_def new_server_def)

section \<open>Snapshots (backupConfig, restoreConfig)\<close>

text \<open>
  The backup document. \<open>configFile\<close> is the content of the interface's configuration
  file, \<open>None\<close> when reading it fails; \<open>writeBackup\<close> is the outcome of creating the
  backup directory and writing the file.
\<close>

record backup =
  bk_server :: server_json
  bk_config :: string
  bk_peers :: "peer list"
  bk_timestamp :: date
  bk_version :: string

definition backupConfig ::
  "db \<Rightarrow> date \<Rightarrow> string option \<Rightarrow> cmd_result \<Rightarrow> string \<Rightarrow> error + backup" where
  "backupConfig d now configFile writeBackup interfaceName =
     (case findOne_server d interfaceName of
        None \<Rightarrow> Inl (Error ''Server not found'')
      | Some server \<Rightarrow>
          (case configFile of
             None \<Rightarrow> Inl (Error ''ENOENT: no such file or directory'')
           | Some configContent \<Rightarrow>
               (case writeBackup of
                  Failed msg \<Rightarrow> Inl (Error msg)
                | Ok out \<Rightarrow>
                    Inr \<lparr>bk_server = toPublicJSON server,
                         bk_config = configContent,
                         bk_peers = find_peers d (srv_id server),
                         bk_timestamp = now,
                         bk_version = ''1.0''\<rparr>)))"

text \<open>
  Validation of a new server document, for the paths that a restore sets: the required
  keys, the patterns of \<open>interfaceName\<close> (\<open>/^wg\d+$/\<close>) and \<open>address\<close>, and the ranges
  of \<open>listenPort\<close> and \<open>mtu\<close>.
\<close>

definition server_validate :: "server \<Rightarrow> error option" where
  "server_validate this =
     (if srv_privateKey this = None \<or> srv_privateKey this = Some []
      then Some (Error ''Server validation failed: privateKey: Private key is required'')
      else if srv_publicKey this = []
      then Some (Error ''Server validation failed: publicKey: Public key is required'')
      else if \<not> (startsWith (srv_interfaceName this) ''wg''
                 \<and> drop 2 (srv_interfaceName this) \<noteq> []
                 \<and> list_all is_digit (drop 2 (srv_interfaceName this)))
      then Some (Error ''Server validation failed: interfaceName'')
      else if \<not> matches_cidr (srv_address this)
      then Some (Error ''Server validation failed: address: Invalid CIDR notation'')
      else if srv_listenPort this < 1024 \<or> 65535 < srv_listenPort this
      then Some (Error ''Server validation failed: listenPort'')
      else if (case srv_mtu this of None \<Rightarrow> False | Some m \<Rightarrow> m < 576 \<or> 9000 < m)
      then Some (Error ''Server validation failed: mtu'')
      else None)"

text \<open>The loop of \<open>restoreConfig\<close> over \<open>backup.peers\<close>.\<close>

fun restore_peers :: "db \<Rightarrow> date \<Rightarrow> oid \<Rightarrow> peer list \<Rightarrow> db \<times> (error + unit)" where
  "restore_peers d now sid [] = (d, Inr ())"
| "restore_peers d now sid (peerData # rest) =
     (let peer = peerData\<lparr>peer_server := sid, peer_status := Pending\<rparr>
      in if peer_privateKey peer = None
         then (d, Inl (Error ''Peer validation failed: privateKey: Private key is required''))
         else (case peer_save d now True True peer peer of
                 (d1, Inl e) \<Rightarrow> (d1, Inl e)
               | (d1, Inr saved) \<Rightarrow> restore_peers d1 now sid rest))"

text \<open>
  \<open>restoreConfig\<close> on the parsed backup; \<open>newId\<close> is the \<open>_id\<close> of the new server
  document. The configuration files are outside the store and not modelled.
\<close>

definition restoreConfig :: "db \<Rightarrow> date \<Rightarrow> oid \<Rightarrow> backup \<Rightarrow> db \<times> (error + nat)" where
  "restoreConfig d now newId b =
     (if bk_config b = [] then (d, Inl (Error ''Invalid backup file''))
      else
        let serverData = json_server (bk_server b)
        in if find (\<lambda>s. srv_interfaceName s = srv_interfaceName serverData) (db_servers d) \<noteq> None
           then (d, Inl (Error (''Interface '' @ srv_interfaceName serverData @ '' already exists'')))
           else
             let server = serverData\<lparr>srv_id := newId, srv_status := Inactive\<rparr>
             in (case server_validate server of
                   Some e \<Rightarrow> (d, Inl e)
                 | None \<Rightarrow>
                     (case restore_peers
                             (d\<lparr>db_servers := db_servers d @ [server_pre_save now server server]\<rparr>)
                             now newId (bk_peers b) of
                        (d1, Inl e) \<Rightarrow> (d1, Inl e)
                      | (d1, Inr u) \<Rightarrow> (d1, Inr (length (bk_peers b))))))"

lemma find_peers_no_secrets:
  "list_all (\<lambda>p. peer_privateKey p = None \<and> peer_presharedKey p = None) (find_peers d sid)"
  by (simp add: find_peers_def select_peer_def list_all_iff)

text \<open>
  What every snapshot looks like: the interface record has no private key (and no
  \<open>_id\<close>), and no peer record has a private or a preshared key.
\<close>

lemma backupConfig_strips_all_keys:
  assumes "backupConfig d now configFile writeBackup interfaceName = Inr b"
  shows "srv_privateKey (json_server (bk_server b)) = None
       \<and> json_id (bk_server b) = None
       \<and> list_all (\<lambda>p. peer_privateKey p = None \<and> peer_presharedKey p = None) (bk_peers b)"
  using assms find_peers_no_secrets
  by (auto simp: backupConfig_def toPublicJSON_def toObject_server_def Let_def
      split: option.splits cmd_result.splits)

text \<open>A snapshot that \<open>backupConfig\<close> wrote is refused by \<open>restoreConfig\<close>.\<close>

lemma restoreConfig_refuses_own_backup:
  assumes "backupConfig d now configFile writeBackup interfaceName = Inr b"
  shows "\<exists>e. restoreConfig d' now' newId b = (d', Inl e)"
proof -
  from backupConfig_strips_all_keys [OF assms]
  have "srv_privateKey (json_server (bk_server b)) = None" by simp
  then show ?thesis
    by (simp add: restoreConfig_def Let_def server_validate_def)
qed

text \<open>
  Claim C4, evaluated on the code. The interface \<open>wg0\<close> of \<open>active_db\<close> is stored with
  its private key; the snapshot that \<open>backupConfig\<close> returns for it has the key removed
  from the interface record, as from the two peer records.
\<close>

theorem backupConfig_drops_server_privateKey:
  "map srv_privateKey (db_servers active_db) = [Some ''serverprivate'']
   \<and> map_sum id (\<lambda>b. srv_privateKey (json_server (bk_server b)))
        (backupConfig active_db 70000 (Some ''[Interface]'') (Ok []) ''wg0'') = Inr None
   \<and> map_sum id (\<lambda>b. map peer_privateKey (bk_peers b))
        (backupConfig active_db 70000 (Some ''[Interface]'') (Ok []) ''wg0'') = Inr [None, None]
   \<and> map_sum id (\<lambda>b. map peer_presharedKey (bk_peers b))
        (backupConfig active_db 70000 (Some ''[Interface]'') (Ok []) ''wg0'') = Inr [None, None]"
  by code_simp

section \<open>Peer provisioning (Peer.generateNewPeer, generateConfig, addPeer, removePeer)\<close>

text \<open>
  The request body of \<open>addPeer\<close>, for the keys the code reads, and what the outside
  world answers during one call: the clock, the \<open>_id\<close> of a new document, the
  outcomes of the \<open>wg\<close> commands and the data URL of the QR code (\<open>None\<close> when
  \<open>QRCode.toDataURL\<close> throws).
\<close>

record peerData =
  pd_server :: oid
  pd_assignedIP :: "string option"
  pd_allowedIPs :: "string list option"
  pd_usePresharedKey :: bool
  pd_mtu :: "int option"
  pd_dns :: "string list option"
  pd_persistentKeepalive :: "int option"
  pd_enabled :: "bool option"


definition js_opt :: "string option \<Rightarrow> string" where
  "js_opt s = (case s of None \<Rightarrow> ''undefined'' | Some v \<Rightarrow> v)"




definition endpointHost :: "server \<Rightarrow> peer \<Rightarrow> string" where
  "endpointHost server this =
     (case peer_endpointHost this of
        None \<Rightarrow> hd (js_split ''/'' (srv_address server))
      | Some host \<Rightarrow> if host \<noteq> [] then host else hd (js_split ''/'' (srv_address server)))"

definition mtu_line :: "int option \<Rightarrow> string list" where
  "mtu_line m = (case m of None \<Rightarrow> [] | Some v \<Rightarrow> [''MTU = '' @ show_int v])"

definition peer_config_lines :: "server \<Rightarrow> peer \<Rightarrow> string list" where
  "peer_config_lines server this =
     [''[Interface]'',
      ''PrivateKey = '' @ js_opt (peer_privateKey this),
      ''Address = '' @ peer_assignedIP this @ ''/32'']
     @ (if peer_dns this \<noteq> [] then [''DNS = '' @ js_join '', '' (peer_dns this)]
        else if srv_dns server \<noteq> [] then [''DNS = '' @ js_join '', '' (srv_dns server)]
        else [])
     @ (if truthy (peer_mtu this) then mtu_line (peer_mtu this)
        else if truthy (srv_mtu server) then mtu_line (srv_mtu server)
        else [])
     @ ['''', ''[Peer]'', ''PublicKey = '' @ srv_publicKey server]
     @ (if srv_listenPort server \<noteq> 0
        then [''Endpoint = '' @ endpointHost server this @ '':'' @ show_int (srv_listenPort server)]
        else [])
     @ [''AllowedIPs = '' @ js_join '', '' (peer_allowedIPs this)]
     @ (if peer_persistentKeepalive this \<noteq> 0
        then [''PersistentKeepalive = '' @ show_int (peer_persistentKeepalive this)]
        else [])
     @ (case peer_presharedKey this of
          None \<Rightarrow> []
        | Some key \<Rightarrow>
            if key \<noteq> [] \<and> peer_usePresharedKey this then [''PresharedKey = '' @ key] else [])"


definition failed :: "string \<Rightarrow> error \<Rightarrow> error" where
  "failed what e = (case e of Error msg \<Rightarrow> Error (what @ msg))"












lemmas eval_defs =
  findOne_server_def findById_server_def findById_peer_def find_peers_def peers_of_def
  select_server_def select_peer_def update_server_def updateMany_peers_def countDocuments_def
  peer_save_def peer_validate_def matches_ip_def matches_cidr_def is_digit_def
  peer_pre_save_def hook_firstSeen_def hook_connected_def hook_disconnected_def hook_mtu_def
  hook_keyRotation_def peer_post_save_def peer_merge_def upd_def truthy_def
  new_server_def new_peer_def js_trim_def is_ws_def show_int_def show_nat.simps digit_char_def
  js_opt_def endpointHost_def mtu_line_def peer_config_lines_def failed_def Let_def






section \<open>MTU probe sweep (setTemporaryMTU, performMTUTest, testMTU)\<close>

text \<open>
  The network outside the process: the live MTU of each interface, and counters of the
  \<open>ip link set\<close> commands and of the probes issued so far. What the \<open>n\<close>-th command
  and the \<open>n\<close>-th probe answer is given by the environment, so that every sequence of
  successes and failures is covered. A command that fails leaves the MTU as it was.
\<close>

datatype ping_outcome = Alive real | Dead | Throws string

record probe_env =
  pe_set :: "nat \<Rightarrow> cmd_result"
  pe_ping_module :: bool
  pe_ping :: "nat \<Rightarrow> ping_outcome"

record net =
  net_mtu :: "string \<Rightarrow> int"
  net_set_calls :: nat
  net_ping_calls :: nat

definition setTemporaryMTU :: "probe_env \<Rightarrow> net \<Rightarrow> string \<Rightarrow> int \<Rightarrow> net \<times> (error + bool)" where
  "setTemporaryMTU env w interfaceName mtu =
     (case pe_set env (net_set_calls w) of
        Ok out \<Rightarrow>
          (w\<lparr>net_mtu := (net_mtu w)(interfaceName := mtu), net_set_calls := net_set_calls w + 1\<rparr>,
           Inr True)
      | Failed msg \<Rightarrow>
          (w\<lparr>net_set_calls := net_set_calls w + 1\<rparr>, Inl (Error (''Failed to set MTU: '' @ msg))))"

text \<open>
  The loop of \<open>performMTUTest\<close> over \<open>testSizes\<close>: \<open>latencies\<close> collects the times of
  the answered probes (one entry per alive ping) and \<open>lost\<close> is \<open>results.packetLoss\<close>.
\<close>

fun probe_sizes :: "probe_env \<Rightarrow> net \<Rightarrow> int list \<Rightarrow> real list \<Rightarrow> nat \<Rightarrow> net \<times> real list \<times> nat" where
  "probe_sizes env w [] latencies lost = (w, latencies, lost)"
| "probe_sizes env w (sz # sizes) latencies lost =
     (case pe_ping env (net_ping_calls w) of
        Alive time \<Rightarrow>
          probe_sizes env (w\<lparr>net_ping_calls := net_ping_calls w + 1\<rparr>) sizes (latencies @ [time]) lost
      | Dead \<Rightarrow>
          probe_sizes env (w\<lparr>net_ping_calls := net_ping_calls w + 1\<rparr>) sizes latencies (lost + 1)
      | Throws msg \<Rightarrow>
          probe_sizes env (w\<lparr>net_ping_calls := net_ping_calls w + 1\<rparr>) sizes latencies (lost + 1))"

definition performMTUTest ::
  "probe_env \<Rightarrow> net \<Rightarrow> string \<Rightarrow> int \<Rightarrow> string \<Rightarrow> net \<times> (error + test_result)" where
  "performMTUTest env w interfaceName mtu testHost =
     (if \<not> pe_ping_module env then (w, Inl (Error ''Cannot find module ping''))
      else
        let testSizes = [64, 512, mtu - 28]
        in (case probe_sizes env w testSizes [] 0 of
              (w1, latencies, lost) \<Rightarrow>
                (w1,
                 Inr \<lparr>tr_success = (0 < length latencies),
                      tr_latency =
                        (if latencies \<noteq> [] then sum_list latencies / real (length latencies) else 0),
                      tr_packetLoss = real lost / real (length testSizes) * 100,
                      tr_successRate = real (length latencies) / real (length testSizes) * 100\<rparr>)))"

record mtu_result =
  r_mtu :: int
  r_success :: bool
  r_latency :: "real option"
  r_packetLoss :: "real option"
  r_score :: real
  r_error :: "string option"

definition error_result :: "int \<Rightarrow> error \<Rightarrow> mtu_result" where
  "error_result mtu e =
     (case e of Error msg \<Rightarrow>
        \<lparr>r_mtu = mtu, r_success = False, r_latency = None, r_packetLoss = None, r_score = 0,
         r_error = Some msg\<rparr>)"

definition probe_result :: "int \<Rightarrow> test_result \<Rightarrow> mtu_result" where
  "probe_result mtu testResult =
     \<lparr>r_mtu = mtu, r_success = tr_success testResult, r_latency = Some (tr_latency testResult),
      r_packetLoss = Some (tr_packetLoss testResult), r_score = calculateMTUScore testResult,
      r_error = None\<rparr>"

text \<open>The loop \<open>for (const mtu of mtuValues)\<close> with its \<open>try\<close>/\<open>catch\<close>.\<close>

fun sweep ::
  "probe_env \<Rightarrow> net \<Rightarrow> string \<Rightarrow> string \<Rightarrow> int list \<Rightarrow> mtu_result list \<Rightarrow> net \<times> mtu_result list" where
  "sweep env w interfaceName testHost [] results = (w, results)"
| "sweep env w interfaceName testHost (mtu # rest) results =
     (case setTemporaryMTU env w interfaceName mtu of
        (w1, Inl e) \<Rightarrow> sweep env w1 interfaceName testHost rest (results @ [error_result mtu e])
      | (w1, Inr ok) \<Rightarrow>
          (case performMTUTest env w1 interfaceName mtu testHost of
             (w2, Inl e) \<Rightarrow> sweep env w2 interfaceName testHost rest (results @ [error_result mtu e])
           | (w2, Inr testResult) \<Rightarrow>
               sweep env w2 interfaceName testHost rest (results @ [probe_result mtu testResult])))"



















text \<open>
  The scenario of the specification: candidates 1280, 1400 and 1500 on an interface
  whose record and path both have MTU 1420; the probes of 1280 and 1400 are answered in
  40 ms and 90 ms and those of 1500 are lost.
\<close>

definition scenario_env :: probe_env where
  "scenario_env =
     \<lparr>pe_set = (\<lambda>n. Ok []), pe_ping_module = True,
      pe_ping = (\<lambda>n. if n < 3 then Alive 40 else if n < 6 then Alive 90 else Dead)\<rparr>"

definition scenario_net :: net where
  "scenario_net = \<lparr>net_mtu = (\<lambda>name. 1420), net_set_calls = 0, net_ping_calls = 0\<rparr>"


lemma scenario_sweep:
  "map r_score (snd (sweep scenario_env scenario_net ''wg0'' ''8.8.8.8'' [1280, 1400, 1500] []))
     = [80, 70, 0]
   \<and> map r_success (snd (sweep scenario_env scenario_net ''wg0'' ''8.8.8.8'' [1280, 1400, 1500] []))
     = [True, True, False]"
  by (simp add: scenario_env_def scenario_net_def setTemporaryMTU_def performMTUTest_def
      probe_result_def error_result_def calculateMTUScore_def Let_def)




section \<open>MTU profiles (models/MTUProfile.js)\<close>

text \<open>
  The fields of a profile that its save hooks and \<open>getDefaultForISP\<close> read. The
  collection is a list in insertion order.
\<close>

record profile =
  prof_id :: oid
  prof_name :: string
  prof_isp :: string
  prof_mtu :: int
  prof_isDefault :: bool
  prof_updatedAt :: date

definition profile_merge :: "profile \<Rightarrow> profile \<Rightarrow> profile \<Rightarrow> profile" where
  "profile_merge loaded this stored =
     \<lparr>prof_id = prof_id stored,
      prof_name = upd (prof_name loaded) (prof_name this) (prof_name stored),
      prof_isp = upd (prof_isp loaded) (prof_isp this) (prof_isp stored),
      prof_mtu = upd (prof_mtu loaded) (prof_mtu this) (prof_mtu stored),
      prof_isDefault = upd (prof_isDefault loaded) (prof_isDefault this) (prof_isDefault stored),
      prof_updatedAt = upd (prof_updatedAt loaded) (prof_updatedAt this) (prof_updatedAt stored)\<rparr>"

definition profile_validate :: "profile \<Rightarrow> bool" where
  "profile_validate this =
     (prof_name this \<noteq> []
      \<and> prof_isp this \<in> set [''MPT'', ''OOREDOO'', ''MYTEL'', ''ATOM'', ''TELENOR'', ''CUSTOM'', ''UNKNOWN'']
      \<and> 576 \<le> prof_mtu this \<and> prof_mtu this \<le> 9000)"

text \<open>
  The second \<open>pre("save")\<close> hook: when \<open>isDefault\<close> is set and modified, the flag is
  cleared on every other profile of the same provider. (The first hook sets
  \<open>updatedAt\<close>; both of its branches only call \<open>next()\<close>.)
\<close>

definition clear_other_defaults :: "profile list \<Rightarrow> date \<Rightarrow> bool \<Rightarrow> profile \<Rightarrow> profile list" where
  "clear_other_defaults ps now isDefaultModified this =
     (if prof_isDefault this \<and> isDefaultModified
      then map (\<lambda>p. if prof_isp p = prof_isp this \<and> prof_id p \<noteq> prof_id this
                     then p\<lparr>prof_isDefault := False, prof_updatedAt := now\<rparr> else p) ps
      else ps)"

text \<open>
  \<open>profile.save()\<close>. A new document counts every path it was given as modified; its
  \<open>name\<close> must be new (unique index), and that is checked by the insert, after the
  hooks have run.
\<close>

definition profile_save ::
  "profile list \<Rightarrow> date \<Rightarrow> bool \<Rightarrow> profile \<Rightarrow> profile \<Rightarrow> profile list \<times> (error + profile)" where
  "profile_save ps now isNew loaded this0 =
     (if \<not> profile_validate this0 then (ps, Inl (Error ''MTUProfile validation failed''))
      else
        let this1 = this0\<lparr>prof_updatedAt := now\<rparr>;
            ps1 = clear_other_defaults ps now
                    (isNew \<or> prof_isDefault this1 \<noteq> prof_isDefault loaded) this1
        in if isNew
           then (if list_ex (\<lambda>p. prof_id p = prof_id this1 \<or> prof_name p = prof_name this1) ps1
                 then (ps1, Inl (Error ''E11000 duplicate key error''))
                 else (ps1 @ [this1], Inr this1))
           else (map (\<lambda>p. if prof_id p = prof_id this1 then profile_merge loaded this1 p else p) ps1,
                 Inr this1))"

definition getDefaultForISP :: "profile list \<Rightarrow> string \<Rightarrow> profile option" where
  "getDefaultForISP ps isp = find (\<lambda>p. prof_isp p = isp \<and> prof_isDefault p) ps"

definition defaults_of :: "profile list \<Rightarrow> string \<Rightarrow> profile list" where
  "defaults_of ps isp = filter (\<lambda>p. prof_isp p = isp \<and> prof_isDefault p) ps"

text \<open>
  The handler of \<open>PUT /mtu/profiles/:id\<close> for a body that gives \<open>isp\<close> and/or
  \<open>isDefault\<close>: load, \<open>Object.assign\<close>, save.
\<close>

definition put_profile ::
  "profile list \<Rightarrow> date \<Rightarrow> oid \<Rightarrow> string option \<Rightarrow> bool option \<Rightarrow> profile list \<times> (error + profile)" where
  "put_profile ps now pid isp isDefault =
     (case find (\<lambda>p. prof_id p = pid) ps of
        None \<Rightarrow> (ps, Inl (Error ''Profile not found''))
      | Some loaded \<Rightarrow>
          profile_save ps now False loaded
            (loaded\<lparr>prof_isp := (case isp of None \<Rightarrow> prof_isp loaded | Some v \<Rightarrow> v),
                    prof_isDefault := (case isDefault of None \<Rightarrow> prof_isDefault loaded | Some b \<Rightarrow> b)\<rparr>))"

lemma find_filter_hd: "filter P xs = x # ys \<Longrightarrow> find P xs = Some x"
  by (induction xs) (auto split: if_splits)

lemma filter_unique_id:
  assumes "distinct (map f xs)" "x \<in> set xs"
  shows "filter (\<lambda>y. f y = f x) xs = [x]"
  using assms
proof (induction xs)
  case Nil
  then show ?case by simp
next
  case (Cons a xs)
  show ?case
  proof (cases "a = x")
    case True
    with Cons.prems have "\<forall>y\<in>set xs. f y \<noteq> f x" by (auto simp: image_iff)
    then have "filter (\<lambda>y. f y = f x) xs = []" by (simp add: filter_empty_conv)
    with True show ?thesis by simp
  next
    case False
    with Cons.prems have "x \<in> set xs" by simp
    moreover from this Cons.prems have "f a \<noteq> f x" by (auto simp: image_iff)
    ultimately show ?thesis using Cons by simp
  qed
qed

text \<open>
  Setting the flag on a stored profile that did not have it: afterwards that profile is
  what \<open>getDefaultForISP\<close> returns for its provider, and it is the only default there.
\<close>

lemma set_default_makes_unique:
  assumes "distinct (map prof_id ps)"
      and "find (\<lambda>p. prof_id p = pid) ps = Some loaded"
      and "\<not> prof_isDefault loaded"
      and "profile_validate loaded"
  shows "\<exists>q. getDefaultForISP (fst (put_profile ps now pid None (Some True))) (prof_isp loaded) = Some q
             \<and> prof_id q = pid
             \<and> map prof_id (defaults_of (fst (put_profile ps now pid None (Some True))) (prof_isp loaded))
                 = [pid]"
proof -
  define this where "this = loaded\<lparr>prof_isDefault := True, prof_updatedAt := now\<rparr>"
  define f where "f = (\<lambda>p. if prof_id p = pid then profile_merge loaded this p
                 else if prof_isp p = prof_isp loaded
                 then p\<lparr>prof_isDefault := False, prof_updatedAt := now\<rparr> else p)"
  from assms(2) have mem: "loaded \<in> set ps" and lid: "prof_id loaded = pid"
    by (auto simp: find_Some_iff)
  have res: "fst (put_profile ps now pid None (Some True)) = map f ps"
    using assms(2,3,4) lid
    by (auto simp: put_profile_def profile_save_def clear_other_defaults_def Let_def
        profile_validate_def f_def this_def)
  have inj: "inj_on prof_id (set ps)"
    using assms(1) by (simp add: distinct_map)
  have key: "(prof_isp (f p) = prof_isp loaded \<and> prof_isDefault (f p)) = (prof_id p = prof_id loaded)"
    if p: "p \<in> set ps" for p
  proof (cases "prof_id p = pid")
    case True
    with p mem lid inj have "p = loaded" by (auto dest: inj_onD)
    with True assms(3) lid show ?thesis by (simp add: f_def this_def profile_merge_def upd_def)
  next
    case False
    with lid show ?thesis by (simp add: f_def)
  qed
  have ids: "prof_id (f p) = prof_id p" for p
    by (simp add: f_def profile_merge_def)
  have "filter (\<lambda>q. prof_isp q = prof_isp loaded \<and> prof_isDefault q) (map f ps)
          = map f (filter (\<lambda>p. prof_isp (f p) = prof_isp loaded \<and> prof_isDefault (f p)) ps)"
    by (simp add: filter_map o_def)
  also have "filter (\<lambda>p. prof_isp (f p) = prof_isp loaded \<and> prof_isDefault (f p)) ps
          = filter (\<lambda>p. prof_id p = prof_id loaded) ps"
    by (rule filter_cong) (simp_all add: key)
  also have "\<dots> = [loaded]"
    by (rule filter_unique_id [OF assms(1) mem])
  finally have defs: "defaults_of (map f ps) (prof_isp loaded) = [f loaded]"
    by (simp add: defaults_of_def)
  then have "getDefaultForISP (map f ps) (prof_isp loaded) = Some (f loaded)"
    unfolding getDefaultForISP_def defaults_of_def by (rule find_filter_hd)
  with defs lid ids show ?thesis by (simp add: res)
qed

text \<open>
  Two providers, each with its one default profile.
\<close>

definition two_providers :: "profile list" where
  "two_providers =
     [\<lparr>prof_id = 1, prof_name = ''MPT_MTU_1400'', prof_isp = ''MPT'', prof_mtu = 1400,
       prof_isDefault = True, prof_updatedAt = 0\<rparr>,
      \<lparr>prof_id = 2, prof_name = ''MYTEL_MTU_1350'', prof_isp = ''MYTEL'', prof_mtu = 1350,
       prof_isDefault = True, prof_updatedAt = 0\<rparr>]"

definition moved_providers :: "profile list" where
  "moved_providers = fst (put_profile two_providers 100 2 (Some ''MPT'') None)"

lemma moved_providers_eq:
  "moved_providers =
     [\<lparr>prof_id = 1, prof_name = ''MPT_MTU_1400'', prof_isp = ''MPT'', prof_mtu = 1400,
       prof_isDefault = True, prof_updatedAt = 0\<rparr>,
      \<lparr>prof_id = 2, prof_name = ''MYTEL_MTU_1350'', prof_isp = ''MPT'', prof_mtu = 1350,
       prof_isDefault = True, prof_updatedAt = 100\<rparr>]"
  by (simp add: moved_providers_def two_providers_def put_profile_def profile_save_def
      profile_validate_def clear_other_defaults_def profile_merge_def upd_def Let_def)

text \<open>
  Claim C9, evaluated on the code. Each provider starts with one default profile.
  Updating profile 2 with \<open>{isp: "MPT"}\<close> saves it with \<open>isDefault\<close> unmodified, so the
  hook clears nothing and MPT has two defaults. Setting profile 2 as default and saving
  again changes nothing either: both profiles still report \<open>isDefault\<close>, and the
  default profile returned for MPT is profile 1.
\<close>

theorem put_profile_isp_leaves_two_defaults:
  "map prof_id (defaults_of two_providers ''MPT'') = [1]
   \<and> map prof_id (defaults_of two_providers ''MYTEL'') = [2]
   \<and> map prof_id (defaults_of moved_providers ''MPT'') = [1, 2]
   \<and> map prof_id (defaults_of (fst (put_profile moved_providers 200 2 None (Some True))) ''MPT'')
       = [1, 2]
   \<and> map_option prof_id
        (getDefaultForISP (fst (put_profile moved_providers 200 2 None (Some True))) ''MPT'')
       = Some 1"
  unfolding moved_providers_eq
  by (simp add: two_providers_def defaults_of_def getDefaultForISP_def put_profile_def
      profile_save_def profile_validate_def clear_other_defaults_def profile_merge_def upd_def
      Let_def)

section \<open>Configuration text (parseConfig, Server.getConfigContent)\<close>

text \<open>
  A JavaScript object used as a field map is a partial map from keys to values.
  \<open>parseConfig\<close> keeps the interface fields and the list of peer field maps;
  \<open>currentPeer\<close> is the object pushed last, so writing to it updates the last element
  of the list.
\<close>

type_synonym fields = "string \<rightharpoonup> string"

record parsed_config =
  cfg_interface :: fields
  cfg_peers :: "fields list"

datatype config_section = NoSection | InterfaceSection | PeerSection

definition set_currentPeer :: "fields list \<Rightarrow> string \<Rightarrow> string \<Rightarrow> fields list" where
  "set_currentPeer peers key val =
     (case rev peers of [] \<Rightarrow> [] | currentPeer # before \<Rightarrow> rev before @ [currentPeer(key \<mapsto> val)])"

fun parse_lines :: "string list \<Rightarrow> config_section \<Rightarrow> fields \<Rightarrow> fields list \<Rightarrow> parsed_config" where
  "parse_lines [] currentSection interface peers =
     \<lparr>cfg_interface = interface, cfg_peers = peers\<rparr>"
| "parse_lines (line # lines) currentSection interface peers =
     (let trimmed = js_trim line
      in if startsWith trimmed ''['' \<and> endsWith trimmed '']''
         then (if trimmed = ''[Interface]'' then parse_lines lines InterfaceSection interface peers
               else if trimmed = ''[Peer]''
               then parse_lines lines PeerSection interface (peers @ [Map.empty])
               else parse_lines lines currentSection interface peers)
         else if trimmed \<noteq> [] \<and> \<not> startsWith trimmed ''#''
         then (let parts = js_split ''='' trimmed;
                   key = js_trim (hd parts);
                   val = js_trim (js_join ''='' (tl parts))
               in case currentSection of
                    InterfaceSection \<Rightarrow> parse_lines lines currentSection (interface(key \<mapsto> val)) peers
                  | PeerSection \<Rightarrow>
                      parse_lines lines currentSection interface (set_currentPeer peers key val)
                  | NoSection \<Rightarrow> parse_lines lines currentSection interface peers)
         else parse_lines lines currentSection interface peers)"



text \<open>
  \<open>parseInt\<close> without a radix: leading white space, an optional sign, then hexadecimal
  digits after \<open>0x\<close> or decimal digits; \<open>None\<close> is NaN.
\<close>

definition is_hex_digit :: "char \<Rightarrow> bool" where
  "is_hex_digit c = (c \<in> set ''0123456789abcdefABCDEF'')"

definition hex_digit_val :: "char \<Rightarrow> nat" where
  "hex_digit_val c =
     (if is_digit c then digit_val c
      else if c \<in> set ''abcdef'' then (of_char c :: nat) - 87
      else (of_char c :: nat) - 55)"

definition hex_val :: "string \<Rightarrow> nat" where
  "hex_val hs = foldl (\<lambda>acc c. acc * 16 + hex_digit_val c) 0 hs"

definition js_parseInt :: "string \<Rightarrow> int option" where
  "js_parseInt s =
     (let t = dropWhile is_ws s;
          sign = (if startsWith t ''-'' then - 1 else 1);
          u = (if startsWith t ''-'' \<or> startsWith t ''+'' then drop 1 t else t)
      in if startsWith u ''0x'' \<or> startsWith u ''0X''
         then (let hs = takeWhile is_hex_digit (drop 2 u)
               in if hs = [] then None else Some (sign * int (hex_val hs)))
         else (let ds = takeWhile is_digit u
               in if ds = [] then None else Some (sign * int (digits_val ds))))"

text \<open>
  The expressions \<open>parseInt(x) || d\<close>, \<open>x || d\<close> and
  \<open>x ? x.split(", ").filter((d) => d) : d\<close> on a field that may be missing.
\<close>

definition parseInt_or :: "string option \<Rightarrow> int \<Rightarrow> int" where
  "parseInt_or v dflt =
     (case v of
        None \<Rightarrow> dflt
      | Some s \<Rightarrow> (case js_parseInt s of None \<Rightarrow> dflt | Some n \<Rightarrow> if n = 0 then dflt else n))"

definition string_or :: "string option \<Rightarrow> string \<Rightarrow> string" where
  "string_or v dflt = (case v of None \<Rightarrow> dflt | Some s \<Rightarrow> if s = [] then dflt else s)"

definition list_or :: "string option \<Rightarrow> string list \<Rightarrow> string list" where
  "list_or v dflt =
     (case v of
        None \<Rightarrow> dflt
      | Some s \<Rightarrow> if s = [] then dflt else filter (\<lambda>d. d \<noteq> []) (js_split '', '' s))"

lemma js_join_split_char: "js_join [c] (js_split [c] s) = s"
proof (induction s)
  case Nil
  then show ?case by simp
next
  case (Cons x s)
  show ?case
  proof (cases "x = c")
    case True
    obtain w ws where "js_split [c] s = w # ws"
      using js_split_nonempty [of "[c]" s] by (cases "js_split [c] s") auto
    with True Cons show ?thesis by simp
  next
    case False
    obtain w ws where "js_split [c] s = w # ws"
      using js_split_nonempty [of "[c]" s] by (cases "js_split [c] s") auto
    with False Cons show ?thesis by (cases ws) auto
  qed
qed





text \<open>
  A field value as the serializer receives it from a valid record: not empty, no line
  break inside, no white space at either end.
\<close>

definition clean_value :: "string \<Rightarrow> bool" where
  "clean_value v = (v \<noteq> [] \<and> CHR 0x0A \<notin> set v \<and> \<not> is_ws (hd v) \<and> \<not> is_ws (last v))"

lemma js_trim_pad:
  assumes "s \<noteq> []" "\<not> is_ws (hd s)" "\<not> is_ws (last s)" "list_all is_ws a" "list_all is_ws b"
  shows "js_trim (a @ s @ b) = s"
proof -
  from assms(1,2) have s1: "dropWhile is_ws (s @ b) = s @ b" by (cases s) auto
  from assms(4) have "dropWhile is_ws (a @ s @ b) = dropWhile is_ws (s @ b)"
    by (simp add: dropWhile_append2 list_all_iff)
  with s1 have front: "dropWhile is_ws (a @ s @ b) = s @ b" by simp
  from assms(1,3) have s2: "dropWhile is_ws (rev s) = rev s"
    by (cases s rule: rev_cases) auto
  from assms(5) have "dropWhile is_ws (rev b @ rev s) = dropWhile is_ws (rev s)"
    by (intro dropWhile_append2) (auto simp: list_all_iff)
  with s2 have "dropWhile is_ws (rev (s @ b)) = rev s" by simp
  with front show ?thesis by (simp add: js_trim_def)
qed

lemma space_is_ws: "list_all is_ws '' ''" "list_all is_ws []"
  by (simp_all add: is_ws_def)

text \<open>What the loop of \<open>parseConfig\<close> does with a line \<open>key = value\<close> of the interface section.\<close>

lemma parse_field_line:
  assumes v: "clean_value v"
      and k: "key \<noteq> []" "\<not> is_ws (hd key)" "\<not> is_ws (last key)" "hd key \<noteq> CHR ''[''"
             "hd key \<noteq> CHR ''#''" "CHR ''='' \<notin> set key"
  shows "parse_lines ((key @ '' = '' @ v) # lines) InterfaceSection interface peers
           = parse_lines lines InterfaceSection (interface(key \<mapsto> v)) peers"
proof -
  define line where "line = key @ '' = '' @ v"
  from v have v': "v \<noteq> []" "\<not> is_ws (hd v)" "\<not> is_ws (last v)"
    by (simp_all add: clean_value_def)
  have trim: "js_trim line = line"
    unfolding line_def using k(1,2) v' by (intro js_trim_id) (simp_all add: hd_append)
  have ne: "line \<noteq> []" using k(1) by (simp add: line_def)
  have nb: "\<not> startsWith line ''[''" "\<not> startsWith line ''#''"
    unfolding line_def using k(1,4,5) by (cases key; simp add: startsWith_def)+
  define padded where "padded = '' '' @ v"
  have "line = (key @ '' '') @ CHR ''='' # padded" by (simp add: line_def padded_def)
  then have "js_split ''='' line = (key @ '' '') # js_split ''='' padded"
    using js_split_char_append [of "CHR ''=''" "key @ '' ''" padded] k(6) by simp
  then have parts: "hd (js_split ''='' line) = key @ '' ''"
    "tl (js_split ''='' line) = js_split ''='' padded" by simp_all
  have key': "js_trim (key @ '' '') = key"
    using js_trim_pad [OF k(1,2,3) space_is_ws(2) space_is_ws(1)] by simp
  have val': "js_trim padded = v"
    unfolding padded_def using js_trim_pad [OF v'(1,2,3) space_is_ws(1) space_is_ws(2)] by simp
  have "parse_lines (line # lines) InterfaceSection interface peers
           = parse_lines lines InterfaceSection (interface(key \<mapsto> v)) peers"
    using ne nb by (simp add: trim parts key' val' js_join_split_char Let_def)
  then show ?thesis by (simp add: line_def)
qed










definition config_onto_server :: "date \<Rightarrow> string \<Rightarrow> bool \<Rightarrow> fields \<Rightarrow> server \<Rightarrow> server" where
  "config_onto_server now publicKey isRunning interface server =
     server\<lparr>srv_address := string_or (interface ''Address'') (srv_address server),
            srv_listenPort := parseInt_or (interface ''ListenPort'') (srv_listenPort server),
            srv_privateKey := interface ''PrivateKey'',
            srv_publicKey := publicKey,
            srv_mtu :=
              (case interface ''MTU'' of
                 None \<Rightarrow> srv_mtu server
               | Some s \<Rightarrow> (case js_parseInt s of
                              None \<Rightarrow> srv_mtu server
                            | Some n \<Rightarrow> if n = 0 then srv_mtu server else Some n)),
            srv_dns := list_or (interface ''DNS'') (srv_dns server),
            srv_status := (if isRunning then Active else Inactive),
            srv_lastSync := Some now\<rparr>"





lemma parse_canonical_lines:
  assumes "clean_value v"
  shows "parse_lines ((''Address = '' @ v) # lines) InterfaceSection interface peers
           = parse_lines lines InterfaceSection (interface(''Address'' \<mapsto> v)) peers"
    and "parse_lines ((''ListenPort = '' @ v) # lines) InterfaceSection interface peers
           = parse_lines lines InterfaceSection (interface(''ListenPort'' \<mapsto> v)) peers"
    and "parse_lines ((''PrivateKey = '' @ v) # lines) InterfaceSection interface peers
           = parse_lines lines InterfaceSection (interface(''PrivateKey'' \<mapsto> v)) peers"
    and "parse_lines ((''MTU = '' @ v) # lines) InterfaceSection interface peers
           = parse_lines lines InterfaceSection (interface(''MTU'' \<mapsto> v)) peers"
    and "parse_lines ((''DNS = '' @ v) # lines) InterfaceSection interface peers
           = parse_lines lines InterfaceSection (interface(''DNS'' \<mapsto> v)) peers"
    and "parse_lines ((''DisableIPv6 = '' @ v) # lines) InterfaceSection interface peers
           = parse_lines lines InterfaceSection (interface(''DisableIPv6'' \<mapsto> v)) peers"
  using parse_field_line [OF assms, of "''Address''" lines interface peers]
    parse_field_line [OF assms, of "''ListenPort''" lines interface peers]
    parse_field_line [OF assms, of "''PrivateKey''" lines interface peers]
    parse_field_line [OF assms, of "''MTU''" lines interface peers]
    parse_field_line [OF assms, of "''DNS''" lines interface peers]
    parse_field_line [OF assms, of "''DisableIPv6''" lines interface peers]
  by (simp_all add: is_ws_def del: parse_lines.simps)

























section \<open>Reconciling parsed peer entries (extractIPFromAllowedIPs, syncPeersToDatabase)\<close>

text \<open>
  The search for \<open>/(\d+\.\d+\.\d+\.\d+)\/\d+/\<close>: \<open>digits_then c\<close> consumes a maximal,
  non-empty run of digits followed by \<open>c\<close> (a shorter run is followed by a digit, so
  backtracking cannot help), \<open>match_here\<close> matches the pattern at the start of the
  string and returns group 1, and \<open>regex_search\<close> tries the start positions from the left.
\<close>

definition digits_then :: "char \<Rightarrow> string \<Rightarrow> (string \<times> string) option" where
  "digits_then c s =
     (let ds = takeWhile is_digit s; r = dropWhile is_digit s
      in if ds \<noteq> [] \<and> r \<noteq> [] \<and> hd r = c then Some (ds, tl r) else None)"

definition match_here :: "string \<Rightarrow> string option" where
  "match_here s =
     (case digits_then CHR ''.'' s of
        None \<Rightarrow> None
      | Some (a, s1) \<Rightarrow>
          (case digits_then CHR ''.'' s1 of
             None \<Rightarrow> None
           | Some (b, s2) \<Rightarrow>
               (case digits_then CHR ''.'' s2 of
                  None \<Rightarrow> None
                | Some (c, s3) \<Rightarrow>
                    (case digits_then CHR ''/'' s3 of
                       None \<Rightarrow> None
                     | Some (d, s4) \<Rightarrow>
                         if takeWhile is_digit s4 \<noteq> []
                         then Some (a @ ''.'' @ b @ ''.'' @ c @ ''.'' @ d) else None))))"

fun regex_search :: "string \<Rightarrow> string option" where
  "regex_search [] = None"
| "regex_search (c # cs) =
     (case match_here (c # cs) of Some g \<Rightarrow> Some g | None \<Rightarrow> regex_search cs)"

definition extractIPFromAllowedIPs :: "string option \<Rightarrow> string option" where
  "extractIPFromAllowedIPs allowedIPs =
     (case allowedIPs of
        None \<Rightarrow> None
      | Some s \<Rightarrow>
          if s = [] then None
          else regex_search (js_trim (hd (js_split '','' s))))"

text \<open>
  What the outside world answers while one entry is processed: the clock, the \<open>_id\<close>
  of a new document and the outcome of \<open>wg genkey\<close>.
\<close>

record sync_env =
  se_now :: date
  se_newId :: oid
  se_genkey :: cmd_result

definition pick_synced_ip :: "db \<Rightarrow> server \<Rightarrow> string option \<Rightarrow> error + string" where
  "pick_synced_ip d server allowedIPs =
     (case extractIPFromAllowedIPs allowedIPs of
        Some ip \<Rightarrow> Inr ip
      | None \<Rightarrow> generateNextIP (db_peers d) server)"

definition synced_peer :: "sync_env \<Rightarrow> server \<Rightarrow> fields \<Rightarrow> string \<Rightarrow> string \<Rightarrow> string \<Rightarrow> peer" where
  "synced_peer ev server peerConfig publicKey privateKey assignedIP =
     \<lparr>peer_id = se_newId ev,
      peer_server = srv_id server,
      peer_publicKey = publicKey,
      peer_privateKey = Some privateKey,
      peer_presharedKey = None,
      peer_allowedIPs = list_or (peerConfig ''AllowedIPs'') [''0.0.0.0/0''],
      peer_persistentKeepalive = parseInt_or (peerConfig ''PersistentKeepalive'') 25,
      peer_assignedIP = assignedIP,
      peer_endpointHost = None,
      peer_dns = [],
      peer_mtu = None,
      peer_status = Pending,
      peer_lastHandshake = None,
      peer_lastSeen = None,
      peer_firstSeen = None,
      peer_connectionCount = 0,
      peer_totalUptime = 0,
      peer_enabled = True,
      peer_usePresharedKey = False,
      peer_configGenerated = False,
      peer_configFile = None,
      peer_qrCode = None,
      peer_keyRotationDate = Some (se_now ev),
      peer_updatedAt = se_now ev\<rparr>"

text \<open>The body of the loop of \<open>syncPeersToDatabase\<close> for one entry.\<close>

definition sync_entry :: "db \<Rightarrow> sync_env \<Rightarrow> server \<Rightarrow> fields \<Rightarrow> db \<times> (error + unit)" where
  "sync_entry d ev server peerConfig =
     (case peerConfig ''PublicKey'' of
        None \<Rightarrow> (d, Inr ())
      | Some publicKey \<Rightarrow>
          if publicKey = [] then (d, Inr ())
          else
            (case find (\<lambda>p. peer_publicKey p = publicKey \<and> peer_server p = srv_id server)
                    (db_peers d) of
               None \<Rightarrow>
                 (case se_genkey ev of
                    Failed msg \<Rightarrow> (d, Inl (Error msg))
                  | Ok out \<Rightarrow>
                      (case pick_synced_ip d server (peerConfig ''AllowedIPs'') of
                         Inl e \<Rightarrow> (d, Inl e)
                       | Inr assignedIP \<Rightarrow>
                           (case peer_save d (se_now ev) True True
                                   (synced_peer ev server peerConfig publicKey (js_trim out) assignedIP)
                                   (synced_peer ev server peerConfig publicKey (js_trim out) assignedIP) of
                              (d1, Inl e) \<Rightarrow> (d1, Inl e)
                            | (d1, Inr saved) \<Rightarrow> (d1, Inr ()))))
             | Some stored \<Rightarrow>
                 (case peer_save d (se_now ev) False False (select_peer stored)
                         ((select_peer stored)
                            \<lparr>peer_allowedIPs :=
                               list_or (peerConfig ''AllowedIPs'') (peer_allowedIPs stored),
                             peer_persistentKeepalive :=
                               parseInt_or (peerConfig ''PersistentKeepalive'')
                                 (peer_persistentKeepalive stored)\<rparr>) of
                    (d1, Inl e) \<Rightarrow> (d1, Inl e)
                  | (d1, Inr saved) \<Rightarrow> (d1, Inr ()))))"

fun syncPeersToDatabase ::
  "db \<Rightarrow> (nat \<Rightarrow> sync_env) \<Rightarrow> nat \<Rightarrow> server \<Rightarrow> fields list \<Rightarrow> db \<times> (error + unit)" where
  "syncPeersToDatabase d env i server [] = (d, Inr ())"
| "syncPeersToDatabase d env i server (peerConfig # rest) =
     (case sync_entry d (env i) server peerConfig of
        (d1, Inl e) \<Rightarrow> (d1, Inl e)
      | (d1, Inr u) \<Rightarrow> syncPeersToDatabase d1 env (i + 1) server rest)"

text \<open>
  \<open>refreshed_only p q\<close>: \<open>q\<close> is \<open>p\<close> except, at most, for the two fields taken from the
  entry and the three that the save hook maintains (\<open>updatedAt\<close>, an \<open>mtu\<close> inherited
  from the server, a first \<open>keyRotationDate\<close>).
\<close>

definition refreshed_only :: "peer \<Rightarrow> peer \<Rightarrow> bool" where
  "refreshed_only p q =
     (q\<lparr>peer_allowedIPs := peer_allowedIPs p,
        peer_persistentKeepalive := peer_persistentKeepalive p,
        peer_mtu := peer_mtu p,
        peer_keyRotationDate := peer_keyRotationDate p,
        peer_updatedAt := peer_updatedAt p\<rparr> = p)"




lemma peer_pre_save_unmodified:
  "refreshed_only this (peer_pre_save d now False this)"
  by (cases this)
     (simp add: refreshed_only_def peer_pre_save_def hook_firstSeen_def hook_connected_def
        hook_disconnected_def hook_mtu_def hook_keyRotation_def split: option.splits)

lemma peer_pre_save_id [simp]: "peer_id (peer_pre_save d now m this) = peer_id this"
  by (simp add: peer_pre_save_def hook_firstSeen_def hook_connected_def
        hook_disconnected_def hook_mtu_def hook_keyRotation_def split: option.splits)

lemma peer_post_save_peers [simp]: "db_peers (peer_post_save d now doc) = db_peers d"
  by (simp add: peer_post_save_def update_server_def Let_def)















text \<open>
  What a successful update writes to a stored peer: the allowed addresses and the
  keepalive of the entry, where the entry gives them.
\<close>

lemma sync_entry_refreshes:
  assumes "distinct (map peer_id (db_peers d))"
      and "peerConfig ''PublicKey'' = Some key" "key \<noteq> []"
      and "find (\<lambda>p. peer_publicKey p = key \<and> peer_server p = srv_id server) (db_peers d) = Some stored"
      and "sync_entry d ev server peerConfig = (d1, Inr ())"
  shows "\<exists>q\<in>set (db_peers d1). peer_id q = peer_id stored
           \<and> peer_allowedIPs q = list_or (peerConfig ''AllowedIPs'') (peer_allowedIPs stored)
           \<and> peer_persistentKeepalive q
               = parseInt_or (peerConfig ''PersistentKeepalive'') (peer_persistentKeepalive stored)"
proof -
  define this where "this = (select_peer stored)
      \<lparr>peer_allowedIPs := list_or (peerConfig ''AllowedIPs'') (peer_allowedIPs stored),
       peer_persistentKeepalive :=
         parseInt_or (peerConfig ''PersistentKeepalive'') (peer_persistentKeepalive stored)\<rparr>"
  define this1 where "this1 = peer_pre_save d (se_now ev) False this"
  have st: "stored \<in> set (db_peers d)"
    using assms(4) by (auto simp: find_Some_iff)
  from assms(2,3,4,5)
  have saved: "peer_validate False (select_peer stored) this"
    and d1: "db_peers d1 = map (\<lambda>p. if peer_id p = peer_id this1
                                   then peer_merge (select_peer stored) this1 p else p) (db_peers d)"
    by (auto simp: sync_entry_def peer_save_def Let_def this_def this1_def
        split: if_splits prod.splits sum.splits)
  have r: "refreshed_only this this1"
    unfolding this1_def by (rule peer_pre_save_unmodified)
  have f1: "peer_allowedIPs this1 = peer_allowedIPs this"
    "peer_persistentKeepalive this1 = peer_persistentKeepalive this" "peer_id this1 = peer_id stored"
    by (simp_all add: this1_def this_def select_peer_def peer_pre_save_def hook_firstSeen_def
        hook_connected_def hook_disconnected_def hook_mtu_def hook_keyRotation_def
        split: option.splits)
  let ?q = "peer_merge (select_peer stored) this1 stored"
  have "?q \<in> set (db_peers d1)"
    unfolding d1 using st f1(3) by (auto simp: image_iff intro!: bexI [of _ stored])
  moreover have "peer_id ?q = peer_id stored" by (simp add: peer_merge_def)
  moreover have "peer_allowedIPs ?q = list_or (peerConfig ''AllowedIPs'') (peer_allowedIPs stored)"
    by (simp add: peer_merge_def upd_def f1 this_def select_peer_def)
  moreover have "peer_persistentKeepalive ?q
      = parseInt_or (peerConfig ''PersistentKeepalive'') (peer_persistentKeepalive stored)"
    by (simp add: peer_merge_def upd_def f1 this_def select_peer_def)
  ultimately show ?thesis by blast
qed



text \<open>
  A run on \<open>example_db\<close> for the interface \<open>wg0\<close>: an entry for the stored peer \<open>k2\<close>,
  an entry without a public key and an entry for an unknown peer. Peer \<open>k3\<close>, which no
  entry names, is stored exactly as before.
\<close>

definition example_entries :: "fields list" where
  "example_entries =
     [[''PublicKey'' \<mapsto> ''k2'', ''AllowedIPs'' \<mapsto> ''10.5.0.2/32'', ''PersistentKeepalive'' \<mapsto> ''15''],
      [''AllowedIPs'' \<mapsto> ''10.5.0.8/32''],
      [''PublicKey'' \<mapsto> ''k9'', ''AllowedIPs'' \<mapsto> ''10.5.0.9/32'']]"

definition example_sync_env :: "nat \<Rightarrow> sync_env" where
  "example_sync_env n = \<lparr>se_now = 7000 + int n, se_newId = 10 + n, se_genkey = Ok ''generated''\<rparr>"


lemma syncPeersToDatabase_example_refreshed:
  "map (\<lambda>p. (peer_publicKey p, peer_allowedIPs p, peer_persistentKeepalive p, peer_assignedIP p))
     (db_peers (fst (syncPeersToDatabase example_db example_sync_env 0
                       (new_server 1 ''wg0'' ''10.5.0.1/24'') example_entries)))
   = [(''k2'', [''10.5.0.2/32''], 15, ''10.5.0.2''),
      (''k3'', [''0.0.0.0/0''], 25, ''10.5.0.3''),
      (''k9'', [''10.5.0.9/32''], 25, ''10.5.0.9'')]"
  by (simp add: example_db_def example_entries_def example_sync_env_def sync_entry_def
      synced_peer_def pick_synced_ip_def extractIPFromAllowedIPs_def match_here_def
      digits_then_def list_or_def parseInt_or_def js_parseInt_def startsWith_def
      digits_val_def digit_val_def eval_defs)

end
